theory Spec2Isabelle
  imports Main "HOL-Library.Word" "HOL-Library.AList" "HOL-Library.Sublist"
    "HOL-Library.Char_ord" "HOL-Library.List_Lexorder" "HOL-Library.Product_Lexorder"
begin

section \<open>Profile settings of the QGIS templates and symbology plugin (conf.py)\<close>

subsection \<open>Python values and exceptions\<close>

text \<open>
  A setting value, and every field that the decoders read back from the settings, is a
  Python string or \<open>None\<close>: \<open>string option\<close>, with \<open>None\<close> for Python's
  \<open>None\<close>. \<open>py_str\<close> is Python's \<open>str()\<close> on such a value.
\<close>

type_synonym pyval = "string option"

definition py_str :: "pyval \<Rightarrow> string" where
  "py_str v = (case v of None \<Rightarrow> ''None'' | Some s \<Rightarrow> s)"

text \<open>
  The exceptions that the modelled code can raise. The first four are all
  \<open>ValueError\<close> in Python and differ by their origin:
  \<open>InvalidProfileIdentifier\<close> is raised by \<open>set_current_profile\<close>,
  \<open>BadlyFormedUUID\<close> by \<open>uuid.UUID\<close>, \<open>TimeDataMismatch\<close> by
  \<open>datetime.strptime\<close>.
\<close>

datatype error =
    InvalidProfileIdentifier
  | BadlyFormedUUID
  | TimeDataMismatch
  | AttributeError
  | TypeError

definition is_ValueError :: "error \<Rightarrow> bool" where
  "is_ValueError e = (e = InvalidProfileIdentifier \<or> e = BadlyFormedUUID \<or> e = TimeDataMismatch)"

subsection \<open>The settings store (QgsSettings)\<close>

text \<open>
  The store is the external collaborator: string keys whose segments are joined by
  \<open>/\<close>, each holding one value. A key is normalised as QSettings does it: it is cut at
  the slashes and empty segments are dropped. The store is an association list from
  normalised keys to values.
\<close>

type_synonym qkey = "string list"
type_synonym qsettings = "(qkey \<times> pyval) list"

fun segs :: "string \<Rightarrow> string list" where
  "segs [] = [[]]"
| "segs (c # cs) =
     (case segs cs of
        [] \<Rightarrow> [[c]]
      | s # ss \<Rightarrow> if c = CHR ''/'' then [] # s # ss else (c # s) # ss)"

definition split_key :: "string \<Rightarrow> qkey" where
  "split_key s = filter (\<lambda>x. x \<noteq> []) (segs s)"

text \<open>
  A \<open>QgsSettings\<close> object inside \<open>beginGroup(group)\<close>: every key is prefixed by the
  group. \<open>qgis_settings\<close> creates a fresh object for each \<open>with\<close> block, so nested
  blocks do not compose their groups.
\<close>

definition full_key :: "string \<Rightarrow> string \<Rightarrow> qkey" where
  "full_key grp key = split_key (grp @ ''/'' @ key)"

definition setValue :: "string \<Rightarrow> string \<Rightarrow> pyval \<Rightarrow> qsettings \<Rightarrow> qsettings" where
  "setValue grp key v st = AList.update (full_key grp key) v st"

text \<open>\<open>value(key)\<close> with the default \<open>None\<close>: an absent key and a stored \<open>None\<close> both read as \<open>None\<close>.\<close>

definition qvalue :: "string \<Rightarrow> string \<Rightarrow> qsettings \<Rightarrow> pyval" where
  "qvalue grp key st = (case map_of st (full_key grp key) of None \<Rightarrow> None | Some v \<Rightarrow> v)"

text \<open>\<open>remove(key)\<close> removes the key and every key below it.\<close>

definition qremove :: "string \<Rightarrow> string \<Rightarrow> qsettings \<Rightarrow> qsettings" where
  "qremove grp key st = filter (\<lambda>kv. \<not> prefix (full_key grp key) (fst kv)) st"

text \<open>
  \<open>childGroups()\<close>: the first segment below the group of every key that lies at least two
  segments below it, without duplicates, in the order of the keys (sorted).
\<close>

definition childGroups :: "string \<Rightarrow> qsettings \<Rightarrow> string list" where
  "childGroups grp st =
     (let g = split_key grp in
      sort (remdups (map (\<lambda>kv. fst kv ! length g)
        (filter (\<lambda>kv. prefix g (fst kv) \<and> length g + 2 \<le> length (fst kv)) st))))"

subsection \<open>UUIDs (uuid.UUID)\<close>

text \<open>
  A UUID is its 128-bit integer. \<open>str(u)\<close> is the 32 lower-case hex digits of the
  integer, cut 8-4-4-4-12 by hyphens.
\<close>

type_synonym uuid = "128 word"

definition hexchar :: "nat \<Rightarrow> char" where
  "hexchar n = (if n < 10 then char_of (48 + n) else char_of (87 + n))"

fun hex_digits :: "nat \<Rightarrow> nat \<Rightarrow> string" where
  "hex_digits 0 n = []"
| "hex_digits (Suc k) n = hex_digits k (n div 16) @ [hexchar (n mod 16)]"

definition uuid_str :: "uuid \<Rightarrow> string" where
  "uuid_str u =
     (let h = hex_digits 32 (unat u) in
      take 8 h @ ''-'' @ take 4 (drop 8 h) @ ''-'' @ take 4 (drop 12 h) @ ''-'' @
      take 4 (drop 16 h) @ ''-'' @ drop 20 h)"

text \<open>\<open>s.replace(old, '')\<close>: every occurrence of \<open>old\<close>, from the left, is dropped.\<close>

function py_remove :: "string \<Rightarrow> string \<Rightarrow> string" where
  "py_remove old [] = []"
| "py_remove old (c # cs) =
     (if old \<noteq> [] \<and> prefix old (c # cs) then py_remove old (drop (length old) (c # cs))
      else c # py_remove old cs)"
  by pat_completeness auto
termination
  by (relation "measure (\<lambda>(old, s). length s)") auto

text \<open>\<open>s.strip(chars)\<close>.\<close>

definition py_strip :: "string \<Rightarrow> string \<Rightarrow> string" where
  "py_strip chars s =
     rev (dropWhile (\<lambda>c. c \<in> set chars) (rev (dropWhile (\<lambda>c. c \<in> set chars) s)))"

definition hexval :: "char \<Rightarrow> nat option" where
  "hexval c =
     (let n = (of_char c :: nat) in
      if 48 \<le> n \<and> n \<le> 57 then Some (n - 48)
      else if 97 \<le> n \<and> n \<le> 102 then Some (n - 87)
      else if 65 \<le> n \<and> n \<le> 70 then Some (n - 55)
      else None)"

fun parse_hex :: "string \<Rightarrow> nat \<Rightarrow> nat option" where
  "parse_hex [] acc = Some acc"
| "parse_hex (c # cs) acc =
     (case hexval c of None \<Rightarrow> None | Some d \<Rightarrow> parse_hex cs (16 * acc + d))"

text \<open>
  \<open>uuid.UUID(hex)\<close>: the prefixes \<open>urn:\<close> and \<open>uuid:\<close>, surrounding braces and
  hyphens are dropped; what is left must be 32 hex digits, or \<open>ValueError\<close> is raised.
  (Python reads the digits with \<open>int(hex, 16)\<close>, which also tolerates a sign, a
  \<open>0x\<close> prefix, underscores and blanks among the 32 characters; such strings are
  taken as badly formed here.)
\<close>

definition UUID :: "string \<Rightarrow> error + uuid" where
  "UUID s =
     (let h = py_remove ''uuid:'' (py_remove ''urn:'' s);
          h = py_remove ''-'' (py_strip ''{}'' h)
      in if length h \<noteq> 32 then Inl BadlyFormedUUID
         else (case parse_hex h 0 of
                 None \<Rightarrow> Inl BadlyFormedUUID
               | Some n \<Rightarrow> Inr (word_of_nat n)))"

subsection \<open>Dates (datetime.datetime, naive)\<close>

record datetime =
  year :: nat
  month :: nat
  day :: nat
  hour :: nat
  minute :: nat
  second :: nat
  microsecond :: nat

definition is_leap :: "nat \<Rightarrow> bool" where
  "is_leap y = (y mod 4 = 0 \<and> (y mod 100 \<noteq> 0 \<or> y mod 400 = 0))"

definition days_in_month :: "nat \<Rightarrow> nat \<Rightarrow> nat" where
  "days_in_month y m =
     (if m = 2 \<and> is_leap y then 29
      else [0, 31, 28, 31, 30, 31, 30, 31, 31, 30, 31, 30, 31] ! m)"

text \<open>The values that the \<open>datetime\<close> constructor accepts; every Python datetime is one.\<close>

definition valid_datetime :: "datetime \<Rightarrow> bool" where
  "valid_datetime d =
     (1 \<le> year d \<and> year d \<le> 9999 \<and> 1 \<le> month d \<and> month d \<le> 12 \<and>
      1 \<le> day d \<and> day d \<le> days_in_month (year d) (month d) \<and>
      hour d \<le> 23 \<and> minute d \<le> 59 \<and> second d \<le> 59 \<and> microsecond d \<le> 999999)"

text \<open>Python compares naive datetimes field by field, from the year down.\<close>

definition dt_tuple :: "datetime \<Rightarrow> nat \<times> nat \<times> nat \<times> nat \<times> nat \<times> nat \<times> nat" where
  "dt_tuple d = (year d, month d, day d, hour d, minute d, second d, microsecond d)"

definition dt_gt :: "datetime \<Rightarrow> datetime \<Rightarrow> bool" where
  "dt_gt a b = (dt_tuple b < dt_tuple a)"

definition digit :: "nat \<Rightarrow> char" where
  "digit n = char_of (48 + n mod 10)"

text \<open>\<open>pad k n\<close>: the last \<open>k\<close> decimal digits of \<open>n\<close>, zero-padded.\<close>

fun pad :: "nat \<Rightarrow> nat \<Rightarrow> string" where
  "pad 0 n = []"
| "pad (Suc k) n = pad k (n div 10) @ [digit (n mod 10)]"

text \<open>\<open>d.strftime("%Y-%m-%dT%H:%M:%S.%fZ")\<close>, with the year on four digits.\<close>

definition strftime :: "datetime \<Rightarrow> string" where
  "strftime d =
     pad 4 (year d) @ ''-'' @ pad 2 (month d) @ ''-'' @ pad 2 (day d) @ ''T'' @
     pad 2 (hour d) @ '':'' @ pad 2 (minute d) @ '':'' @ pad 2 (second d) @ ''.'' @
     pad 6 (microsecond d) @ ''Z''"

definition is_digit :: "char \<Rightarrow> bool" where
  "is_digit c = (48 \<le> (of_char c :: nat) \<and> (of_char c :: nat) \<le> 57)"

definition dec_value :: "string \<Rightarrow> nat" where
  "dec_value s = foldl (\<lambda>a c. 10 * a + ((of_char c :: nat) - 48)) 0 s"

text \<open>The text up to the first of the delimiters, and the text after that delimiter.\<close>

definition take_until :: "string \<Rightarrow> string \<Rightarrow> (string \<times> string) option" where
  "take_until delims s =
     (case dropWhile (\<lambda>c. c \<notin> set delims) s of
        [] \<Rightarrow> None
      | c # rest \<Rightarrow> Some (takeWhile (\<lambda>c. c \<notin> set delims) s, rest))"

text \<open>One or two digits with a value between \<open>lo\<close> and \<open>hi\<close>.\<close>

definition num_field :: "nat \<Rightarrow> nat \<Rightarrow> string \<Rightarrow> nat option" where
  "num_field lo hi f =
     (if list_all is_digit f \<and> 1 \<le> length f \<and> length f \<le> 2 \<and>
         lo \<le> dec_value f \<and> dec_value f \<le> hi
      then Some (dec_value f) else None)"

definition year_field :: "string \<Rightarrow> nat option" where
  "year_field f = (if list_all is_digit f \<and> length f = 4 then Some (dec_value f) else None)"

definition day_field :: "string \<Rightarrow> nat option" where
  "day_field f =
     (case f of
        [b, c] \<Rightarrow> if b = CHR '' '' \<and> is_digit c \<and> c \<noteq> CHR ''0''
                  then Some (dec_value [c]) else num_field 1 31 f
      | _ \<Rightarrow> num_field 1 31 f)"

definition fraction_field :: "string \<Rightarrow> nat option" where
  "fraction_field f =
     (if list_all is_digit f \<and> 1 \<le> length f \<and> length f \<le> 6
      then Some (dec_value (f @ replicate (6 - length f) (CHR ''0''))) else None)"

text \<open>The \<open>datetime\<close> constructor, which rejects the values that are out of range.\<close>

definition mk_datetime :: "nat \<Rightarrow> nat \<Rightarrow> nat \<Rightarrow> nat \<Rightarrow> nat \<Rightarrow> nat \<Rightarrow> nat \<Rightarrow> error + datetime" where
  "mk_datetime y m d h mi s us =
     (let r = \<lparr>year = y, month = m, day = d, hour = h, minute = mi, second = s,
               microsecond = us\<rparr>
      in if valid_datetime r then Inr r else Inl TimeDataMismatch)"

text \<open>
  \<open>datetime.strptime(s, "%Y-%m-%dT%H:%M:%S.%fZ")\<close>. The format is matched as the
  library's regular expression matches it: four digits for the year, one or two for the
  month, day, hour, minute and second (the day also as a blank and a digit), one to six
  for the fraction, the letters in either case, and nothing left over. Every failure is a
  \<open>ValueError\<close>.
\<close>

definition split_fields ::
  "string \<Rightarrow> (string \<times> string \<times> string \<times> string \<times> string \<times> string \<times> string) option" where
  "split_fields s =
     Option.bind (take_until ''-'' s) (\<lambda>(fy, s1).
     Option.bind (take_until ''-'' s1) (\<lambda>(fm, s2).
     Option.bind (take_until ''Tt'' s2) (\<lambda>(fd, s3).
     Option.bind (take_until '':'' s3) (\<lambda>(fh, s4).
     Option.bind (take_until '':'' s4) (\<lambda>(fmi, s5).
     Option.bind (take_until ''.'' s5) (\<lambda>(fs, s6).
     Option.bind (take_until ''Zz'' s6) (\<lambda>(ff, s7).
     if s7 = [] then Some (fy, fm, fd, fh, fmi, fs, ff) else None)))))))"

definition field_values ::
  "string \<times> string \<times> string \<times> string \<times> string \<times> string \<times> string \<Rightarrow>
   (nat \<times> nat \<times> nat \<times> nat \<times> nat \<times> nat \<times> nat) option" where
  "field_values fs =
     (case fs of (fy, fm, fd, fh, fmi, fsec, ff) \<Rightarrow>
     Option.bind (year_field fy) (\<lambda>y.
     Option.bind (num_field 1 12 fm) (\<lambda>m.
     Option.bind (day_field fd) (\<lambda>d.
     Option.bind (num_field 0 23 fh) (\<lambda>h.
     Option.bind (num_field 0 59 fmi) (\<lambda>mi.
     Option.bind (num_field 0 61 fsec) (\<lambda>sec.
     Option.bind (fraction_field ff) (\<lambda>us.
     Some (y, m, d, h, mi, sec, us)))))))))"

definition strptime :: "string \<Rightarrow> error + datetime" where
  "strptime s =
     (case Option.bind (split_fields s) field_values of
        None \<Rightarrow> Inl TimeDataMismatch
      | Some (y, m, d, h, mi, sec, us) \<Rightarrow> mk_datetime y m d h mi sec us)"

subsection \<open>Records of the data model\<close>

text \<open>
  \<open>Template\<close> and \<open>Symbology\<close> come from the plugin's \<open>models\<close> module; the
  settings code uses their \<open>name\<close> and \<open>id\<close> only. A field read back from the
  store may be \<open>None\<close>.
\<close>

record TemplateSettings =
  template_name :: pyval
  template_id :: pyval

record SymbologySettings =
  symbology_name :: pyval
  symbology_id :: pyval

record ProfileSettings =
  profile_id :: uuid
  name :: pyval
  path :: pyval
  templates :: "TemplateSettings list"
  symbology :: "SymbologySettings list"
  created_date :: "datetime option"

text \<open>
  The manager: the settings it reads and writes, and the number of times the signal
  \<open>profiles_settings_updated\<close> has been emitted.
\<close>

record SettingsManager =
  settings :: qsettings
  emitted :: nat

definition emit :: "SettingsManager \<Rightarrow> SettingsManager" where
  "emit m = m\<lparr>emitted := Suc (emitted m)\<rparr>"

definition BASE_GROUP_NAME :: string where "BASE_GROUP_NAME = ''qgis_templates_symbology''"
definition PROFILE_GROUP_NAME :: string where "PROFILE_GROUP_NAME = ''profiles''"
definition SELECTED_PROFILE_KEY :: string where "SELECTED_PROFILE_KEY = ''selected_profile''"
definition TEMPLATE_GROUP_NAME :: string where "TEMPLATE_GROUP_NAME = ''templates''"
definition SYMBOLOGY_GROUP_NAME :: string where "SYMBOLOGY_GROUP_NAME = ''symbology''"

subsection \<open>Key paths\<close>

text \<open>The identifiers are passed as the strings that \<open>str()\<close> gives in the source.\<close>

definition profiles_root :: string where
  "profiles_root = BASE_GROUP_NAME @ ''/'' @ PROFILE_GROUP_NAME"

definition get_profile_settings_base :: "string \<Rightarrow> string" where
  "get_profile_settings_base identifier =
     BASE_GROUP_NAME @ ''/'' @ PROFILE_GROUP_NAME @ ''/'' @ identifier"

definition get_template_settings_base :: "string \<Rightarrow> string \<Rightarrow> string" where
  "get_template_settings_base profile_identifier identifier =
     BASE_GROUP_NAME @ ''/'' @ PROFILE_GROUP_NAME @ ''/'' @ profile_identifier @ ''/'' @
     TEMPLATE_GROUP_NAME @ ''/'' @ identifier"

definition get_symbology_settings_base :: "string \<Rightarrow> string \<Rightarrow> string" where
  "get_symbology_settings_base profile_identifier identifier =
     BASE_GROUP_NAME @ ''/'' @ PROFILE_GROUP_NAME @ ''/'' @ profile_identifier @ ''/'' @
     SYMBOLOGY_GROUP_NAME @ ''/'' @ identifier"

definition templates_root :: "string \<Rightarrow> string" where
  "templates_root profile_identifier =
     BASE_GROUP_NAME @ ''/'' @ PROFILE_GROUP_NAME @ ''/'' @ profile_identifier @ ''/'' @
     TEMPLATE_GROUP_NAME"

definition symbology_root :: "string \<Rightarrow> string" where
  "symbology_root profile_identifier =
     BASE_GROUP_NAME @ ''/'' @ PROFILE_GROUP_NAME @ ''/'' @ profile_identifier @ ''/'' @
     SYMBOLOGY_GROUP_NAME"

subsection \<open>Templates and symbology\<close>

definition TemplateSettings_from_qgs_settings :: "string \<Rightarrow> qsettings \<Rightarrow> TemplateSettings" where
  "TemplateSettings_from_qgs_settings grp st =
     \<lparr>template_name = qvalue grp ''name'' st, template_id = qvalue grp ''id'' st\<rparr>"

definition SymbologySettings_from_qgs_settings :: "string \<Rightarrow> qsettings \<Rightarrow> SymbologySettings" where
  "SymbologySettings_from_qgs_settings grp st =
     \<lparr>symbology_name = qvalue grp ''name'' st, symbology_id = qvalue grp ''id'' st\<rparr>"

definition save_template ::
  "SettingsManager \<Rightarrow> ProfileSettings \<Rightarrow> TemplateSettings \<Rightarrow> SettingsManager" where
  "save_template m profile template_settings =
     (let settings_key = get_template_settings_base (uuid_str (profile_id profile))
                           (py_str (template_id template_settings))
      in m\<lparr>settings :=
            setValue settings_key ''id'' (template_id template_settings)
              (setValue settings_key ''name'' (template_name template_settings) (settings m))\<rparr>)"

definition get_templates :: "qsettings \<Rightarrow> uuid \<Rightarrow> TemplateSettings list" where
  "get_templates st profile_identifier =
     map (\<lambda>g. TemplateSettings_from_qgs_settings
                 (get_template_settings_base (uuid_str profile_identifier) g) st)
       (childGroups (templates_root (uuid_str profile_identifier)) st)"

definition save_symbology ::
  "SettingsManager \<Rightarrow> ProfileSettings \<Rightarrow> SymbologySettings \<Rightarrow> SettingsManager" where
  "save_symbology m profile symbology_settings =
     (let settings_key = get_symbology_settings_base (uuid_str (profile_id profile))
                           (py_str (symbology_id symbology_settings))
      in m\<lparr>settings :=
            setValue settings_key ''id'' (symbology_id symbology_settings)
              (setValue settings_key ''name'' (symbology_name symbology_settings) (settings m))\<rparr>)"

definition get_symbology :: "qsettings \<Rightarrow> uuid \<Rightarrow> SymbologySettings list" where
  "get_symbology st profile_identifier =
     map (\<lambda>g. SymbologySettings_from_qgs_settings
                 (get_symbology_settings_base (uuid_str profile_identifier) g) st)
       (childGroups (symbology_root (uuid_str profile_identifier)) st)"

subsection \<open>Decoding a profile\<close>

text \<open>
  The body of the \<open>try\<close> block of \<open>ProfileSettings.from_qgs_settings\<close>. It gives the
  templates and symbology assigned so far together with the date read, or the exception
  raised; a stored date of \<open>None\<close> gives the date \<open>None\<close>.
\<close>

definition read_created_date :: "string \<Rightarrow> qsettings \<Rightarrow> error + datetime option" where
  "read_created_date grp st =
     (case qvalue grp ''created_date'' st of
        None \<Rightarrow> Inr None
      | Some s \<Rightarrow> (case strptime s of Inl e \<Rightarrow> Inl e | Inr d \<Rightarrow> Inr (Some d)))"

definition try_block ::
  "string \<Rightarrow> string \<Rightarrow> qsettings \<Rightarrow>
   TemplateSettings list \<times> SymbologySettings list \<times> (error + datetime option)" where
  "try_block identifier grp st =
     (case UUID identifier of
        Inl e \<Rightarrow> ([], [], Inl e)
      | Inr u \<Rightarrow> (get_templates st u, get_symbology st u, read_created_date grp st))"

text \<open>\<open>except AttributeError: created_date = datetime.datetime.now()\<close>; any other exception goes on.\<close>

definition except_AttributeError ::
  "datetime \<Rightarrow> error + datetime option \<Rightarrow> error + datetime option" where
  "except_AttributeError now r =
     (case r of
        Inl e \<Rightarrow> if e = AttributeError then Inr (Some now) else Inl e
      | Inr d \<Rightarrow> Inr d)"

definition ProfileSettings_from_qgs_settings ::
  "datetime \<Rightarrow> string \<Rightarrow> string \<Rightarrow> qsettings \<Rightarrow> error + ProfileSettings" where
  "ProfileSettings_from_qgs_settings now identifier grp st =
     (case try_block identifier grp st of (ts, ss, r) \<Rightarrow>
        (case except_AttributeError now r of
           Inl e \<Rightarrow> Inl e
         | Inr created \<Rightarrow>
             (case UUID identifier of
                Inl e \<Rightarrow> Inl e
              | Inr u \<Rightarrow>
                  Inr \<lparr>profile_id = u, name = qvalue grp ''name'' st,
                       path = qvalue grp ''path'' st, templates = ts, symbology = ss,
                       created_date = created\<rparr>)))"

subsection \<open>The settings manager\<close>

text \<open>A loop that appends one decoded result per element and stops at the first exception.\<close>

fun collect :: "('a \<Rightarrow> error + 'b) \<Rightarrow> 'a list \<Rightarrow> error + 'b list" where
  "collect f [] = Inr []"
| "collect f (x # xs) =
     (case f x of
        Inl e \<Rightarrow> Inl e
      | Inr y \<Rightarrow> (case collect f xs of Inl e \<Rightarrow> Inl e | Inr ys \<Rightarrow> Inr (y # ys)))"

definition list_profiles :: "datetime \<Rightarrow> qsettings \<Rightarrow> error + ProfileSettings list" where
  "list_profiles now st =
     collect (\<lambda>pid. ProfileSettings_from_qgs_settings now pid (get_profile_settings_base pid) st)
       (childGroups profiles_root st)"

definition get_profile_settings :: "datetime \<Rightarrow> qsettings \<Rightarrow> uuid \<Rightarrow> error + ProfileSettings" where
  "get_profile_settings now st identifier =
     ProfileSettings_from_qgs_settings now (uuid_str identifier)
       (get_profile_settings_base (uuid_str identifier)) st"

definition clear_current_profile :: "SettingsManager \<Rightarrow> SettingsManager" where
  "clear_current_profile m =
     emit (m\<lparr>settings := setValue BASE_GROUP_NAME SELECTED_PROFILE_KEY None (settings m)\<rparr>)"

definition get_current_profile :: "datetime \<Rightarrow> qsettings \<Rightarrow> error + ProfileSettings option" where
  "get_current_profile now st =
     (case qvalue BASE_GROUP_NAME SELECTED_PROFILE_KEY st of
        None \<Rightarrow> Inr None
      | Some current \<Rightarrow>
          (case UUID current of
             Inl e \<Rightarrow> Inl e
           | Inr u \<Rightarrow>
               (case get_profile_settings now st u of
                  Inl e \<Rightarrow> Inl e
                | Inr p \<Rightarrow> Inr (Some p))))"

definition is_current_profile :: "datetime \<Rightarrow> qsettings \<Rightarrow> uuid \<Rightarrow> error + bool" where
  "is_current_profile now st identifier =
     (case get_current_profile now st of
        Inl e \<Rightarrow> Inl e
      | Inr None \<Rightarrow> Inr False
      | Inr (Some current) \<Rightarrow> Inr (profile_id current = identifier))"

definition is_profile :: "datetime \<Rightarrow> qsettings \<Rightarrow> uuid \<Rightarrow> error + bool" where
  "is_profile now st identifier =
     (case list_profiles now st of
        Inl e \<Rightarrow> Inl e
      | Inr profiles \<Rightarrow> Inr (list_ex (\<lambda>p. profile_id p = identifier) profiles))"

text \<open>
  The operations that write return the exception raised, if any, and the manager as the
  call leaves it.
\<close>

definition save_profile_settings ::
  "SettingsManager \<Rightarrow> ProfileSettings \<Rightarrow> (error + unit) \<times> SettingsManager" where
  "save_profile_settings m profile_settings =
     (let settings_key = get_profile_settings_base (uuid_str (profile_id profile_settings)) in
      case created_date profile_settings of
        None \<Rightarrow> (Inl AttributeError, m)
      | Some d \<Rightarrow>
          (let created = strftime d;
               m1 = fold (\<lambda>t m'. save_template m' profile_settings t)
                      (templates profile_settings) m;
               m2 = fold (\<lambda>t m'. save_symbology m' profile_settings t)
                      (symbology profile_settings) m1;
               st3 = setValue settings_key ''created_date'' (Some created)
                       (setValue settings_key ''path'' (path profile_settings)
                         (setValue settings_key ''name'' (name profile_settings) (settings m2)))
           in (Inr (), emit (m2\<lparr>settings := st3\<rparr>))))"

definition delete_all_profiles :: "SettingsManager \<Rightarrow> SettingsManager" where
  "delete_all_profiles m =
     (let st1 = fold (\<lambda>profile_name st. qremove profiles_root profile_name st)
                  (childGroups profiles_root (settings m)) (settings m)
      in emit (clear_current_profile (m\<lparr>settings := st1\<rparr>)))"

definition delete_profile ::
  "datetime \<Rightarrow> SettingsManager \<Rightarrow> uuid \<Rightarrow> (error + unit) \<times> SettingsManager" where
  "delete_profile now m identifier =
     (case is_current_profile now (settings m) identifier of
        Inl e \<Rightarrow> (Inl e, m)
      | Inr b \<Rightarrow>
          (let m1 = (if b then clear_current_profile m else m)
           in (Inr (), emit (m1\<lparr>settings := qremove profiles_root (uuid_str identifier)
                                              (settings m1)\<rparr>))))"

text \<open>\<open>a > b\<close> on two \<open>created_date\<close> values; comparing with \<open>None\<close> is a \<open>TypeError\<close>.\<close>

definition py_gt :: "datetime option \<Rightarrow> datetime option \<Rightarrow> error + bool" where
  "py_gt a b =
     (case a of
        None \<Rightarrow> Inl TypeError
      | Some x \<Rightarrow> (case b of None \<Rightarrow> Inl TypeError | Some y \<Rightarrow> Inr (dt_gt x y)))"

fun latest_loop :: "ProfileSettings \<Rightarrow> ProfileSettings list \<Rightarrow> error + ProfileSettings" where
  "latest_loop latest_profile [] = Inr latest_profile"
| "latest_loop latest_profile (profile # rest) =
     (case py_gt (created_date profile) (created_date latest_profile) of
        Inl e \<Rightarrow> Inl e
      | Inr b \<Rightarrow> latest_loop (if b then profile else latest_profile) rest)"

definition get_latest_profile :: "datetime \<Rightarrow> qsettings \<Rightarrow> error + ProfileSettings option" where
  "get_latest_profile now st =
     (case list_profiles now st of
        Inl e \<Rightarrow> Inl e
      | Inr profile_list \<Rightarrow>
          if length profile_list < 1 then Inr None
          else (case latest_loop (profile_list ! 0) profile_list of
                  Inl e \<Rightarrow> Inl e
                | Inr p \<Rightarrow> Inr (Some p)))"

definition set_current_profile ::
  "datetime \<Rightarrow> SettingsManager \<Rightarrow> uuid \<Rightarrow> (error + unit) \<times> SettingsManager" where
  "set_current_profile now m identifier =
     (case list_profiles now (settings m) of
        Inl e \<Rightarrow> (Inl e, m)
      | Inr profiles \<Rightarrow>
          if identifier \<notin> set (map profile_id profiles)
          then (Inl InvalidProfileIdentifier, m)
          else (Inr (), emit (m\<lparr>settings :=
                   setValue BASE_GROUP_NAME SELECTED_PROFILE_KEY (Some (uuid_str identifier))
                     (settings m)\<rparr>)))"

subsection \<open>Predicates used in the statements\<close>

text \<open>The active-profile pointer as it is read: the stored string, or \<open>None\<close>.\<close>

definition selected_profile :: "qsettings \<Rightarrow> pyval" where
  "selected_profile st = qvalue BASE_GROUP_NAME SELECTED_PROFILE_KEY st"

text \<open>No key at or below the base path of the profile is in the store.\<close>

definition never_written :: "qsettings \<Rightarrow> uuid \<Rightarrow> bool" where
  "never_written st u =
     list_all (\<lambda>kv. \<not> prefix (split_key (get_profile_settings_base (uuid_str u))) (fst kv)) st"

text \<open>
  The pointer, when present, is the string of a UUID that some group under the profiles
  root denotes.
\<close>

definition pointer_valid :: "qsettings \<Rightarrow> bool" where
  "pointer_valid st =
     (case selected_profile st of
        None \<Rightarrow> True
      | Some s \<Rightarrow>
          (case UUID s of
             Inl e \<Rightarrow> False
           | Inr u \<Rightarrow> list_ex (\<lambda>g. UUID g = Inr u) (childGroups profiles_root st)))"

text \<open>A child id that is one path segment: a non-empty string without a slash.\<close>

definition segment_id :: "pyval \<Rightarrow> bool" where
  "segment_id v = (case v of None \<Rightarrow> False | Some s \<Rightarrow> s \<noteq> [] \<and> CHR ''/'' \<notin> set s)"

text \<open>The date of a profile that has one, as Python orders it.\<close>

definition date_of :: "ProfileSettings \<Rightarrow> nat \<times> nat \<times> nat \<times> nat \<times> nat \<times> nat \<times> nat" where
  "date_of p = dt_tuple (the (created_date p))"

text \<open>The group under which \<open>save_template\<close> and \<open>save_symbology\<close> write a record.\<close>

definition template_path :: "ProfileSettings \<Rightarrow> TemplateSettings \<Rightarrow> qkey" where
  "template_path p t =
     split_key (get_template_settings_base (uuid_str (profile_id p)) (py_str (template_id t)))"

definition symbology_path :: "ProfileSettings \<Rightarrow> SymbologySettings \<Rightarrow> qkey" where
  "symbology_path p t =
     split_key (get_symbology_settings_base (uuid_str (profile_id p)) (py_str (symbology_id t)))"

section \<open>Auxiliary facts\<close>

subsection \<open>Keys\<close>

lemma segs_nonempty: "segs s \<noteq> []"
  by (induction s) (auto split: list.splits)

lemma segs_append_slash: "segs (a @ CHR ''/'' # b) = segs a @ segs b"
  by (induction a) (auto simp: segs_nonempty split: list.splits)

lemma split_key_append: "split_key (a @ CHR ''/'' # b) = split_key a @ split_key b"
  by (simp add: split_key_def segs_append_slash)

lemma segs_noslash: "CHR ''/'' \<notin> set s \<Longrightarrow> segs s = [s]"
  by (induction s) auto

lemma split_key_noslash: "CHR ''/'' \<notin> set s \<Longrightarrow> s \<noteq> [] \<Longrightarrow> split_key s = [s]"
  by (simp add: split_key_def segs_noslash)

lemma full_key_eq: "full_key grp key = split_key grp @ split_key key"
  by (simp add: full_key_def split_key_append)

subsection \<open>UUID strings\<close>

lemma of_char_hexchar:
  "n < 16 \<Longrightarrow> (of_char (hexchar n) :: nat) = (if n < 10 then 48 + n else 87 + n)"
  by (simp add: hexchar_def)

lemma hexval_hexchar: "n < 16 \<Longrightarrow> hexval (hexchar n) = Some n"
  by (auto simp: hexval_def of_char_hexchar Let_def)

lemma hexchar_neq:
  assumes "n < 16" and "(of_char c :: nat) < 48 \<or> (57 < (of_char c :: nat) \<and> (of_char c :: nat) < 97) \<or> 102 < (of_char c :: nat)"
  shows "hexchar n \<noteq> c"
proof
  assume "hexchar n = c"
  then have "(of_char (hexchar n) :: nat) = of_char c" by simp
  with assms show False by (auto simp: of_char_hexchar split: if_splits)
qed

lemma length_hex_digits: "length (hex_digits k n) = k"
  by (induction k arbitrary: n) auto

lemma hex_digits_chars: "c \<in> set (hex_digits k n) \<Longrightarrow> \<exists>i<16. c = hexchar i"
proof (induction k arbitrary: n)
  case 0
  then show ?case by simp
next
  case (Suc k)
  then show ?case
  proof (cases "c \<in> set (hex_digits k (n div 16))")
    case True
    then show ?thesis by (rule Suc.IH)
  next
    case False
    with Suc.prems have "c = hexchar (n mod 16)" by simp
    then show ?thesis by (intro exI[of _ "n mod 16"]) simp
  qed
qed

lemma hex_digits_not_special:
  assumes "(of_char c :: nat) < 48 \<or> (57 < (of_char c :: nat) \<and> (of_char c :: nat) < 97) \<or> 102 < (of_char c :: nat)"
  shows "c \<notin> set (hex_digits k n)"
  using hex_digits_chars hexchar_neq[OF _ assms] by blast

lemma parse_hex_append:
  "parse_hex (xs @ ys) acc = (case parse_hex xs acc of None \<Rightarrow> None | Some a \<Rightarrow> parse_hex ys a)"
  by (induction xs arbitrary: acc) (auto split: option.splits)

lemma parse_hex_hex_digits:
  "parse_hex (hex_digits k n) acc = Some (acc * 16 ^ k + n mod 16 ^ k)"
proof (induction k arbitrary: n acc)
  case 0
  then show ?case by simp
next
  case (Suc k)
  have "n mod (16 * 16 ^ k) = 16 * (n div 16 mod 16 ^ k) + n mod 16"
    by (metis mod_mult2_eq)
  with Suc show ?case
    by (simp add: parse_hex_append hexval_hexchar algebra_simps)
qed

lemma py_remove_absent: "c \<in> set old \<Longrightarrow> c \<notin> set s \<Longrightarrow> py_remove old s = s"
proof (induction s)
  case Nil
  then show ?case by simp
next
  case (Cons x xs)
  have "\<not> prefix old (x # xs)"
  proof
    assume "prefix old (x # xs)"
    then have "set old \<subseteq> set (x # xs)" by (rule set_mono_prefix)
    with Cons.prems show False by blast
  qed
  with Cons show ?case by simp
qed

lemma py_remove_single: "py_remove [c] s = filter (\<lambda>x. x \<noteq> c) s"
  by (induction s) auto

lemma py_strip_absent: "\<forall>c\<in>set s. c \<notin> set chars \<Longrightarrow> py_strip chars s = s"
proof -
  assume a: "\<forall>c\<in>set s. c \<notin> set chars"
  have "dropWhile (\<lambda>c. c \<in> set chars) xs = xs" if "set xs \<subseteq> set s" for xs
    using that a by (cases xs) auto
  then show ?thesis by (simp add: py_strip_def)
qed

lemma take_drop_join: "take a (drop b h) @ drop (a + b) h = drop b h"
  by (simp add: drop_drop[symmetric] del: drop_drop)

lemma uuid_slices:
  "take 8 h @ take 4 (drop 8 h) @ take 4 (drop 12 h) @ take 4 (drop 16 h) @ drop 20 h = h"
  using take_drop_join[of 4 16 h] take_drop_join[of 4 12 h] take_drop_join[of 4 8 h]
    take_drop_join[of 8 0 h]
  by simp

lemma uuid_str_chars:
  "c \<in> set (uuid_str u) \<Longrightarrow> c = CHR ''-'' \<or> c \<in> set (hex_digits 32 (unat u))"
  by (auto simp: uuid_str_def Let_def dest: in_set_takeD in_set_dropD)

lemma filter_uuid_str:
  "filter (\<lambda>x. x \<noteq> CHR ''-'') (uuid_str u) = hex_digits 32 (unat u)"
proof -
  have n: "CHR ''-'' \<notin> set (hex_digits 32 (unat u))"
    by (rule hex_digits_not_special) simp
  have f: "filter (\<lambda>x. x \<noteq> CHR ''-'') xs = xs" if "set xs \<subseteq> set (hex_digits 32 (unat u))" for xs
    using that n by (auto simp: filter_id_conv)
  have t: "set (take a (drop b (hex_digits 32 (unat u)))) \<subseteq> set (hex_digits 32 (unat u))" for a b
    by (meson set_take_subset set_drop_subset subset_trans)
  show ?thesis
    by (simp add: uuid_str_def Let_def f t set_take_subset set_drop_subset uuid_slices)
qed

lemma UUID_uuid_str: "UUID (uuid_str u) = Inr u"
proof -
  have c: "CHR '':'' \<notin> set (uuid_str u)"
    using uuid_str_chars[of "CHR '':''" u] hex_digits_not_special[of "CHR '':''" 32 "unat u"]
    by auto
  have b: "\<forall>c\<in>set (uuid_str u). c \<notin> set ''{}''"
    using uuid_str_chars hex_digits_not_special[of "CHR ''{''" 32 "unat u"]
      hex_digits_not_special[of "CHR ''}''" 32 "unat u"]
    by auto
  have "unat u < 16 ^ 32"
    using unsigned_less[of u, where 'a = nat] by simp
  then show ?thesis
    by (simp add: UUID_def Let_def py_remove_absent[OF _ c] py_strip_absent[OF b]
        py_remove_single filter_uuid_str length_hex_digits parse_hex_hex_digits)
qed

subsection \<open>Date strings\<close>

lemma of_char_digit: "(of_char (digit n) :: nat) = 48 + n mod 10"
  by (simp add: digit_def)

lemma is_digit_digit: "is_digit (digit n)"
  by (simp add: is_digit_def of_char_digit)

lemma length_pad: "length (pad k n) = k"
  by (induction k arbitrary: n) auto

lemma pad_digits: "list_all is_digit (pad k n)"
  by (induction k arbitrary: n) (auto simp: is_digit_digit)

lemma dec_value_snoc: "dec_value (xs @ [c]) = 10 * dec_value xs + ((of_char c :: nat) - 48)"
  by (simp add: dec_value_def)

lemma dec_value_pad: "dec_value (pad k n) = n mod 10 ^ k"
proof (induction k arbitrary: n)
  case 0
  then show ?case by (simp add: dec_value_def)
next
  case (Suc k)
  have "n mod (10 * 10 ^ k) = 10 * (n div 10 mod 10 ^ k) + n mod 10"
    by (metis mod_mult2_eq)
  with Suc show ?case
    by (simp add: dec_value_snoc of_char_digit)
qed

lemma take_until_hit:
  "\<forall>x\<in>set f. x \<notin> set delims \<Longrightarrow> c \<in> set delims \<Longrightarrow>
   take_until delims (f @ c # rest) = Some (f, rest)"
  by (simp add: take_until_def dropWhile_append3 takeWhile_tail)

lemma is_digit_not_delim:
  assumes "list_all is_digit f" and "\<forall>c\<in>set delims. \<not> is_digit c"
  shows "\<forall>x\<in>set f. x \<notin> set delims"
  using assms by (auto simp: list_all_iff)

lemma take_until_pad:
  "\<forall>c\<in>set delims. \<not> is_digit c \<Longrightarrow> c \<in> set delims \<Longrightarrow>
   take_until delims (pad k n @ c # rest) = Some (pad k n, rest)"
  by (rule take_until_hit) (use is_digit_not_delim[OF pad_digits] in blast)+

lemma split_fields_strftime:
  "split_fields (strftime d) =
     Some (pad 4 (year d), pad 2 (month d), pad 2 (day d), pad 2 (hour d), pad 2 (minute d),
           pad 2 (second d), pad 6 (microsecond d))"
  by (simp add: split_fields_def strftime_def take_until_pad is_digit_def)


lemma num_field_pad: "lo \<le> n \<Longrightarrow> n \<le> hi \<Longrightarrow> n < 100 \<Longrightarrow> num_field lo hi (pad 2 n) = Some n"
  by (simp add: num_field_def pad_digits length_pad dec_value_pad)

lemma year_field_pad: "n < 10000 \<Longrightarrow> year_field (pad 4 n) = Some n"
  by (simp add: year_field_def pad_digits length_pad dec_value_pad)

lemma digit_not_blank: "digit n \<noteq> CHR '' ''"
proof
  assume "digit n = CHR '' ''"
  then have "(of_char (digit n) :: nat) = of_char (CHR '' '')" by simp
  then show False by (simp add: of_char_digit)
qed

lemma day_field_pad: "1 \<le> n \<Longrightarrow> n \<le> 31 \<Longrightarrow> day_field (pad 2 n) = Some n"
proof -
  assume a: "1 \<le> n" "n \<le> 31"
  have p: "pad 2 n = [digit (n div 10 mod 10), digit (n mod 10)]"
    by (simp add: numeral_2_eq_2)
  have "day_field (pad 2 n) = num_field 1 31 (pad 2 n)"
    unfolding p by (simp add: day_field_def digit_not_blank)
  with a show ?thesis by (simp add: num_field_pad)
qed

lemma fraction_field_pad: "n < 1000000 \<Longrightarrow> fraction_field (pad 6 n) = Some n"
  by (simp add: fraction_field_def pad_digits length_pad dec_value_pad)

lemma days_in_month_le: "days_in_month y m \<le> 31" if "m \<le> 12"
proof -
  have "m = 0 \<or> m = 1 \<or> m = 2 \<or> m = 3 \<or> m = 4 \<or> m = 5 \<or> m = 6 \<or> m = 7 \<or> m = 8 \<or> m = 9 \<or>
        m = 10 \<or> m = 11 \<or> m = 12"
    using that by arith
  then show ?thesis by (auto simp: days_in_month_def)
qed

lemma strptime_strftime: "valid_datetime d \<Longrightarrow> strptime (strftime d) = Inr d"
proof -
  assume v: "valid_datetime d"
  then have "day d \<le> 31"
    using days_in_month_le[of "month d" "year d"] by (simp add: valid_datetime_def)
  with v have "field_values (pad 4 (year d), pad 2 (month d), pad 2 (day d), pad 2 (hour d),
        pad 2 (minute d), pad 2 (second d), pad 6 (microsecond d)) =
      Some (year d, month d, day d, hour d, minute d, second d, microsecond d)"
    by (simp add: field_values_def valid_datetime_def year_field_pad num_field_pad
        day_field_pad fraction_field_pad)
  then have "strptime (strftime d) =
      mk_datetime (year d) (month d) (day d) (hour d) (minute d) (second d) (microsecond d)"
    by (simp add: strptime_def split_fields_strftime)
  also have "\<dots> = Inr d"
    using v by (cases d) (simp add: mk_datetime_def)
  finally show ?thesis .
qed

subsection \<open>Paths\<close>

lemma uuid_str_noslash: "CHR ''/'' \<notin> set (uuid_str u)"
  using uuid_str_chars[of "CHR ''/''" u] hex_digits_not_special[of "CHR ''/''" 32 "unat u"]
  by auto

lemma uuid_str_nonempty: "uuid_str u \<noteq> []"
  by (simp add: uuid_str_def Let_def)

lemma split_key_uuid_str: "split_key (uuid_str u) = [uuid_str u]"
  by (simp add: split_key_noslash uuid_str_noslash uuid_str_nonempty)

lemma uuid_str_inj: "uuid_str u = uuid_str v \<Longrightarrow> u = v"
  by (metis UUID_uuid_str sum.inject(2))

lemma split_key_names:
  "split_key BASE_GROUP_NAME = [BASE_GROUP_NAME]"
  "split_key PROFILE_GROUP_NAME = [PROFILE_GROUP_NAME]"
  "split_key SELECTED_PROFILE_KEY = [SELECTED_PROFILE_KEY]"
  "split_key TEMPLATE_GROUP_NAME = [TEMPLATE_GROUP_NAME]"
  "split_key SYMBOLOGY_GROUP_NAME = [SYMBOLOGY_GROUP_NAME]"
  "split_key ''name'' = [''name'']"
  "split_key ''id'' = [''id'']"
  "split_key ''path'' = [''path'']"
  "split_key ''created_date'' = [''created_date'']"
  by (simp_all add: split_key_noslash BASE_GROUP_NAME_def PROFILE_GROUP_NAME_def
      SELECTED_PROFILE_KEY_def TEMPLATE_GROUP_NAME_def SYMBOLOGY_GROUP_NAME_def)

lemma names_distinct:
  "PROFILE_GROUP_NAME \<noteq> SELECTED_PROFILE_KEY"
  "SELECTED_PROFILE_KEY \<noteq> PROFILE_GROUP_NAME"
  "TEMPLATE_GROUP_NAME \<noteq> SYMBOLOGY_GROUP_NAME"
  "SYMBOLOGY_GROUP_NAME \<noteq> TEMPLATE_GROUP_NAME"
  by (simp_all add: PROFILE_GROUP_NAME_def SELECTED_PROFILE_KEY_def TEMPLATE_GROUP_NAME_def
      SYMBOLOGY_GROUP_NAME_def)

lemma key_profiles_root: "split_key profiles_root = [BASE_GROUP_NAME, PROFILE_GROUP_NAME]"
  by (simp add: profiles_root_def split_key_append split_key_names)

lemma key_profile_base:
  "split_key (get_profile_settings_base s) = [BASE_GROUP_NAME, PROFILE_GROUP_NAME] @ split_key s"
  by (simp add: get_profile_settings_base_def split_key_append split_key_names)

lemma key_templates_root:
  "split_key (templates_root s) =
     [BASE_GROUP_NAME, PROFILE_GROUP_NAME] @ split_key s @ [TEMPLATE_GROUP_NAME]"
  by (simp add: templates_root_def split_key_append split_key_names)

lemma key_symbology_root:
  "split_key (symbology_root s) =
     [BASE_GROUP_NAME, PROFILE_GROUP_NAME] @ split_key s @ [SYMBOLOGY_GROUP_NAME]"
  by (simp add: symbology_root_def split_key_append split_key_names)

lemma key_template_base:
  "split_key (get_template_settings_base s t) =
     [BASE_GROUP_NAME, PROFILE_GROUP_NAME] @ split_key s @ [TEMPLATE_GROUP_NAME] @ split_key t"
  by (simp add: get_template_settings_base_def split_key_append split_key_names)

lemma key_symbology_base:
  "split_key (get_symbology_settings_base s t) =
     [BASE_GROUP_NAME, PROFILE_GROUP_NAME] @ split_key s @ [SYMBOLOGY_GROUP_NAME] @ split_key t"
  by (simp add: get_symbology_settings_base_def split_key_append split_key_names)

lemmas key_simps = full_key_eq key_profiles_root key_profile_base key_templates_root
  key_symbology_root key_template_base key_symbology_base split_key_names split_key_uuid_str

subsection \<open>The store\<close>

lemma map_of_setValue: "map_of (setValue g k v st) = (map_of st)(full_key g k \<mapsto> v)"
  by (simp add: setValue_def update_conv')

lemma keys_setValue: "fst ` set (setValue g k v st) = insert (full_key g k) (fst ` set st)"
  by (simp add: setValue_def dom_update)

lemma qvalue_setValue_same: "qvalue g k (setValue g k v st) = v"
  by (simp add: qvalue_def map_of_setValue split: option.splits)

lemma qvalue_setValue_other:
  "full_key g' k' \<noteq> full_key g k \<Longrightarrow> qvalue g' k' (setValue g k v st) = qvalue g' k' st"
  by (simp add: qvalue_def map_of_setValue)

lemma qvalue_absent: "full_key g k \<notin> fst ` set st \<Longrightarrow> qvalue g k st = None"
  by (metis (no_types, lifting) qvalue_def map_of_eq_None_iff option.simps(4))

lemma set_childGroups:
  "set (childGroups g st) =
     {k ! length (split_key g) | k. k \<in> fst ` set st \<and> prefix (split_key g) k \<and>
        length (split_key g) + 2 \<le> length k}"
  by (auto simp: childGroups_def Let_def)

lemma childGroups_empty:
  "\<forall>k\<in>fst ` set st. \<not> prefix (split_key g) k \<Longrightarrow> childGroups g st = []"
proof -
  assume "\<forall>k\<in>fst ` set st. \<not> prefix (split_key g) k"
  then have "set (childGroups g st) = {}" by (auto simp: set_childGroups)
  then show ?thesis by simp
qed

lemma keys_qremove:
  "fst ` set (qremove g k st) = {x \<in> fst ` set st. \<not> prefix (full_key g k) x}"
  by (auto simp: qremove_def)

lemma map_of_qremove:
  "map_of (qremove g k st) x = (if prefix (full_key g k) x then None else map_of st x)"
  by (induction st) (auto simp: qremove_def)

subsection \<open>Notifications\<close>

lemma emitted_save_template: "emitted (save_template m p t) = emitted m"
  by (simp add: save_template_def Let_def)

lemma emitted_save_symbology: "emitted (save_symbology m p t) = emitted m"
  by (simp add: save_symbology_def Let_def)

lemma emitted_fold_save_template:
  "emitted (fold (\<lambda>t m'. save_template m' p t) ts m) = emitted m"
  by (induction ts arbitrary: m) (simp_all add: emitted_save_template)

lemma emitted_fold_save_symbology:
  "emitted (fold (\<lambda>t m'. save_symbology m' p t) ts m) = emitted m"
  by (induction ts arbitrary: m) (simp_all add: emitted_save_symbology)

lemma emitted_clear_current_profile: "emitted (clear_current_profile m) = Suc (emitted m)"
  by (simp add: clear_current_profile_def emit_def)

lemma emitted_save_profile_settings:
  "save_profile_settings m p = (Inr (), m') \<Longrightarrow> emitted m' = Suc (emitted m)"
  by (auto simp: save_profile_settings_def Let_def emit_def emitted_fold_save_template
      emitted_fold_save_symbology split: option.splits)

lemma emitted_set_current_profile:
  "set_current_profile now m u = (Inr (), m') \<Longrightarrow> emitted m' = Suc (emitted m)"
  by (auto simp: set_current_profile_def emit_def split: sum.splits if_splits)

lemma emitted_delete_all_profiles: "emitted (delete_all_profiles m) = emitted m + 2"
  by (simp add: delete_all_profiles_def Let_def emit_def clear_current_profile_def)

lemma emitted_delete_profile:
  "delete_profile now m u = (Inr (), m') \<Longrightarrow>
   emitted m' = emitted m + (if is_current_profile now (settings m) u = Inr True then 2 else 1)"
  by (auto simp: delete_profile_def Let_def emit_def clear_current_profile_def split: sum.splits)

lemma failed_save_profile_settings:
  "save_profile_settings m p = (Inl e, m') \<Longrightarrow> m' = m"
  by (auto simp: save_profile_settings_def Let_def split: option.splits)

lemma failed_set_current_profile:
  "set_current_profile now m u = (Inl e, m') \<Longrightarrow> m' = m"
  by (auto simp: set_current_profile_def split: sum.splits if_splits)

lemma failed_delete_profile:
  "delete_profile now m u = (Inl e, m') \<Longrightarrow> m' = m"
  by (auto simp: delete_profile_def Let_def split: sum.splits)

subsection \<open>Decoding\<close>

lemma strptime_error: "strptime s = Inl e \<Longrightarrow> e = TimeDataMismatch"
  by (auto simp: strptime_def mk_datetime_def Let_def split: option.splits if_splits)

lemma read_created_date_error: "read_created_date grp st = Inl e \<Longrightarrow> e = TimeDataMismatch"
  by (auto simp: read_created_date_def split: option.splits sum.splits dest: strptime_error)

lemma from_qgs_settings_decode:
  assumes "UUID identifier = Inr u"
  shows "ProfileSettings_from_qgs_settings now identifier grp st =
     (case read_created_date grp st of
        Inl e \<Rightarrow> Inl e
      | Inr created \<Rightarrow>
          Inr \<lparr>profile_id = u, name = qvalue grp ''name'' st, path = qvalue grp ''path'' st,
               templates = get_templates st u, symbology = get_symbology st u,
               created_date = created\<rparr>)"
  using assms
  by (auto simp: ProfileSettings_from_qgs_settings_def try_block_def except_AttributeError_def
      split: sum.splits dest: read_created_date_error)

lemma from_qgs_settings_bad_uuid:
  "UUID identifier = Inl e \<Longrightarrow> ProfileSettings_from_qgs_settings now identifier grp st = Inl BadlyFormedUUID"
  by (auto simp: ProfileSettings_from_qgs_settings_def try_block_def except_AttributeError_def
      UUID_def Let_def split: sum.splits if_splits option.splits)

lemma get_profile_settings_decode:
  "get_profile_settings now st u =
     (case read_created_date (get_profile_settings_base (uuid_str u)) st of
        Inl e \<Rightarrow> Inl e
      | Inr created \<Rightarrow>
          Inr \<lparr>profile_id = u,
               name = qvalue (get_profile_settings_base (uuid_str u)) ''name'' st,
               path = qvalue (get_profile_settings_base (uuid_str u)) ''path'' st,
               templates = get_templates st u, symbology = get_symbology st u,
               created_date = created\<rparr>)"
  by (simp add: get_profile_settings_def from_qgs_settings_decode[OF UUID_uuid_str])

text \<open>A store that holds one profile, with a name and nothing else.\<close>

lemma list_profiles_one:
  "list_profiles now [([BASE_GROUP_NAME, PROFILE_GROUP_NAME, uuid_str 1, ''name''], Some ''A'')] =
     Inr [\<lparr>profile_id = 1, name = Some ''A'', path = None, templates = [], symbology = [],
            created_date = None\<rparr>]"
  by (simp add: list_profiles_def childGroups_def key_simps from_qgs_settings_decode[OF UUID_uuid_str]
      read_created_date_def qvalue_def get_templates_def get_symbology_def
      TEMPLATE_GROUP_NAME_def SYMBOLOGY_GROUP_NAME_def)

lemma list_profiles_empty: "list_profiles now [] = Inr []"
  by (simp add: list_profiles_def childGroups_def)

lemma uuid_str_eq_iff: "uuid_str u = uuid_str v \<longleftrightarrow> u = v"
  using uuid_str_inj by blast

lemma never_written_keys:
  "never_written st u \<longleftrightarrow>
     (\<forall>k\<in>fst ` set st. \<not> prefix [BASE_GROUP_NAME, PROFILE_GROUP_NAME, uuid_str u] k)"
  by (auto simp: never_written_def list_all_iff key_simps)

subsection \<open>Saving a template or a symbology\<close>

lemma map_of_save_template:
  "map_of (settings (save_template m p t)) =
     (map_of (settings m))(template_path p t @ [''name''] \<mapsto> template_name t,
       template_path p t @ [''id''] \<mapsto> template_id t)"
  by (simp add: save_template_def Let_def map_of_setValue template_path_def full_key_eq
      split_key_names)

lemma map_of_save_symbology:
  "map_of (settings (save_symbology m p t)) =
     (map_of (settings m))(symbology_path p t @ [''name''] \<mapsto> symbology_name t,
       symbology_path p t @ [''id''] \<mapsto> symbology_id t)"
  by (simp add: save_symbology_def Let_def map_of_setValue symbology_path_def full_key_eq
      split_key_names)

lemma keys_save_template:
  "fst ` set (settings (save_template m p t)) =
     insert (template_path p t @ [''id'']) (insert (template_path p t @ [''name''])
       (fst ` set (settings m)))"
  by (simp add: save_template_def Let_def keys_setValue template_path_def full_key_eq
      split_key_names)

lemma keys_save_symbology:
  "fst ` set (settings (save_symbology m p t)) =
     insert (symbology_path p t @ [''id'']) (insert (symbology_path p t @ [''name''])
       (fst ` set (settings m)))"
  by (simp add: save_symbology_def Let_def keys_setValue symbology_path_def full_key_eq
      split_key_names)

lemma template_path_eq:
  "template_path p t =
     [BASE_GROUP_NAME, PROFILE_GROUP_NAME, uuid_str (profile_id p), TEMPLATE_GROUP_NAME] @
     split_key (py_str (template_id t))"
  by (simp add: template_path_def key_simps)

lemma symbology_path_eq:
  "symbology_path p t =
     [BASE_GROUP_NAME, PROFILE_GROUP_NAME, uuid_str (profile_id p), SYMBOLOGY_GROUP_NAME] @
     split_key (py_str (symbology_id t))"
  by (simp add: symbology_path_def key_simps)

lemma qvalue_cong_map_of:
  "map_of st' (full_key g k) = map_of st (full_key g k) \<Longrightarrow> qvalue g k st' = qvalue g k st"
  by (simp add: qvalue_def)

lemma save_template_frame:
  "(\<forall>k. k \<noteq> template_path p t @ [''name''] \<and> k \<noteq> template_path p t @ [''id''] \<longrightarrow>
      map_of (settings (save_template m p t)) k = map_of (settings m) k) \<and>
   prefix [BASE_GROUP_NAME, PROFILE_GROUP_NAME, uuid_str (profile_id p), TEMPLATE_GROUP_NAME]
     (template_path p t) \<and>
   selected_profile (settings (save_template m p t)) = selected_profile (settings m) \<and>
   (\<forall>f\<in>{''name'', ''path'', ''created_date''}.
      qvalue (get_profile_settings_base (uuid_str (profile_id p))) f
        (settings (save_template m p t)) =
      qvalue (get_profile_settings_base (uuid_str (profile_id p))) f (settings m)) \<and>
   (\<forall>u k. u \<noteq> profile_id p \<and> prefix [BASE_GROUP_NAME, PROFILE_GROUP_NAME, uuid_str u] k \<longrightarrow>
      map_of (settings (save_template m p t)) k = map_of (settings m) k) \<and>
   emitted (save_template m p t) = emitted m"
proof (intro conjI allI impI ballI)
  fix k
  assume "k \<noteq> template_path p t @ [''name''] \<and> k \<noteq> template_path p t @ [''id'']"
  then show "map_of (settings (save_template m p t)) k = map_of (settings m) k"
    by (simp add: map_of_save_template)
next
  show "prefix [BASE_GROUP_NAME, PROFILE_GROUP_NAME, uuid_str (profile_id p),
      TEMPLATE_GROUP_NAME] (template_path p t)"
    by (simp add: template_path_eq)
next
  show "selected_profile (settings (save_template m p t)) = selected_profile (settings m)"
    unfolding selected_profile_def
    by (rule qvalue_cong_map_of)
      (simp add: map_of_save_template template_path_eq key_simps names_distinct)
next
  fix f :: string
  assume "f \<in> {''name'', ''path'', ''created_date''}"
  then have "full_key (get_profile_settings_base (uuid_str (profile_id p))) f =
      [BASE_GROUP_NAME, PROFILE_GROUP_NAME, uuid_str (profile_id p), f]"
    by (auto simp: key_simps)
  then show "qvalue (get_profile_settings_base (uuid_str (profile_id p))) f
        (settings (save_template m p t)) =
      qvalue (get_profile_settings_base (uuid_str (profile_id p))) f (settings m)"
    by (intro qvalue_cong_map_of) (simp add: map_of_save_template template_path_eq)
next
  fix u k
  assume a: "u \<noteq> profile_id p \<and> prefix [BASE_GROUP_NAME, PROFILE_GROUP_NAME, uuid_str u] k"
  then have "uuid_str u \<noteq> uuid_str (profile_id p)" by (simp add: uuid_str_eq_iff)
  with a have "k \<noteq> template_path p t @ [''name'']" "k \<noteq> template_path p t @ [''id'']"
    by (auto simp: template_path_eq)
  then show "map_of (settings (save_template m p t)) k = map_of (settings m) k"
    by (simp add: map_of_save_template)
next
  show "emitted (save_template m p t) = emitted m"
    by (rule emitted_save_template)
qed

lemma save_symbology_frame:
  "(\<forall>k. k \<noteq> symbology_path p t @ [''name''] \<and> k \<noteq> symbology_path p t @ [''id''] \<longrightarrow>
      map_of (settings (save_symbology m p t)) k = map_of (settings m) k) \<and>
   prefix [BASE_GROUP_NAME, PROFILE_GROUP_NAME, uuid_str (profile_id p), SYMBOLOGY_GROUP_NAME]
     (symbology_path p t) \<and>
   selected_profile (settings (save_symbology m p t)) = selected_profile (settings m) \<and>
   (\<forall>f\<in>{''name'', ''path'', ''created_date''}.
      qvalue (get_profile_settings_base (uuid_str (profile_id p))) f
        (settings (save_symbology m p t)) =
      qvalue (get_profile_settings_base (uuid_str (profile_id p))) f (settings m)) \<and>
   (\<forall>u k. u \<noteq> profile_id p \<and> prefix [BASE_GROUP_NAME, PROFILE_GROUP_NAME, uuid_str u] k \<longrightarrow>
      map_of (settings (save_symbology m p t)) k = map_of (settings m) k) \<and>
   emitted (save_symbology m p t) = emitted m"
proof (intro conjI allI impI ballI)
  fix k
  assume "k \<noteq> symbology_path p t @ [''name''] \<and> k \<noteq> symbology_path p t @ [''id'']"
  then show "map_of (settings (save_symbology m p t)) k = map_of (settings m) k"
    by (simp add: map_of_save_symbology)
next
  show "prefix [BASE_GROUP_NAME, PROFILE_GROUP_NAME, uuid_str (profile_id p),
      SYMBOLOGY_GROUP_NAME] (symbology_path p t)"
    by (simp add: symbology_path_eq)
next
  show "selected_profile (settings (save_symbology m p t)) = selected_profile (settings m)"
    unfolding selected_profile_def
    by (rule qvalue_cong_map_of)
      (simp add: map_of_save_symbology symbology_path_eq key_simps names_distinct)
next
  fix f :: string
  assume "f \<in> {''name'', ''path'', ''created_date''}"
  then have "full_key (get_profile_settings_base (uuid_str (profile_id p))) f =
      [BASE_GROUP_NAME, PROFILE_GROUP_NAME, uuid_str (profile_id p), f]"
    by (auto simp: key_simps)
  then show "qvalue (get_profile_settings_base (uuid_str (profile_id p))) f
        (settings (save_symbology m p t)) =
      qvalue (get_profile_settings_base (uuid_str (profile_id p))) f (settings m)"
    by (intro qvalue_cong_map_of) (simp add: map_of_save_symbology symbology_path_eq)
next
  fix u k
  assume a: "u \<noteq> profile_id p \<and> prefix [BASE_GROUP_NAME, PROFILE_GROUP_NAME, uuid_str u] k"
  then have "uuid_str u \<noteq> uuid_str (profile_id p)" by (simp add: uuid_str_eq_iff)
  with a have "k \<noteq> symbology_path p t @ [''name'']" "k \<noteq> symbology_path p t @ [''id'']"
    by (auto simp: symbology_path_eq)
  then show "map_of (settings (save_symbology m p t)) k = map_of (settings m) k"
    by (simp add: map_of_save_symbology)
next
  show "emitted (save_symbology m p t) = emitted m"
    by (rule emitted_save_symbology)
qed

subsection \<open>The latest profile\<close>

lemma py_gt_dated:
  "created_date p \<noteq> None \<Longrightarrow> created_date q \<noteq> None \<Longrightarrow>
   py_gt (created_date p) (created_date q) = Inr (date_of q < date_of p)"
  by (auto simp: py_gt_def dt_gt_def date_of_def)

text \<open>
  The loop keeps the current candidate unless a later profile is strictly newer, so it
  ends with the candidate itself, when nothing in the list is newer, or with the first
  element of the list that is newer than the candidate and everything before it and at
  least as new as everything after it.
\<close>

lemma latest_loop_result:
  assumes "created_date cur \<noteq> None" and "\<forall>p\<in>set ps. created_date p \<noteq> None"
  shows "\<exists>r. latest_loop cur ps = Inr r \<and>
    ((r = cur \<and> (\<forall>q\<in>set ps. date_of q \<le> date_of cur)) \<or>
     (\<exists>i<length ps. r = ps ! i \<and> date_of cur < date_of (ps ! i) \<and>
        (\<forall>j<i. date_of (ps ! j) < date_of (ps ! i)) \<and>
        (\<forall>j<length ps. date_of (ps ! j) \<le> date_of (ps ! i))))"
  using assms
proof (induction ps arbitrary: cur)
  case Nil
  then show ?case by simp
next
  case (Cons p ps)
  show ?case
  proof (cases "date_of cur < date_of p")
    case True
    with Cons.prems have step: "latest_loop cur (p # ps) = latest_loop p ps"
      by (simp add: py_gt_dated)
    from Cons.prems have "created_date p \<noteq> None" "\<forall>q\<in>set ps. created_date q \<noteq> None"
      by simp_all
    from Cons.IH[OF this] obtain r where r: "latest_loop p ps = Inr r"
      and alt: "(r = p \<and> (\<forall>q\<in>set ps. date_of q \<le> date_of p)) \<or>
        (\<exists>i<length ps. r = ps ! i \<and> date_of p < date_of (ps ! i) \<and>
          (\<forall>j<i. date_of (ps ! j) < date_of (ps ! i)) \<and>
          (\<forall>j<length ps. date_of (ps ! j) \<le> date_of (ps ! i)))"
      by blast
    from alt show ?thesis
    proof
      assume a: "r = p \<and> (\<forall>q\<in>set ps. date_of q \<le> date_of p)"
      have "\<forall>j<length (p # ps). date_of ((p # ps) ! j) \<le> date_of ((p # ps) ! 0)"
      proof (intro allI impI)
        fix j assume "j < length (p # ps)"
        then show "date_of ((p # ps) ! j) \<le> date_of ((p # ps) ! 0)"
          using a by (cases j) auto
      qed
      with a True r step show ?thesis
        by (intro exI[of _ r]) (auto intro!: exI[of _ 0])
    next
      assume "\<exists>i<length ps. r = ps ! i \<and> date_of p < date_of (ps ! i) \<and>
          (\<forall>j<i. date_of (ps ! j) < date_of (ps ! i)) \<and>
          (\<forall>j<length ps. date_of (ps ! j) \<le> date_of (ps ! i))"
      then obtain i where i: "i < length ps" "r = ps ! i" "date_of p < date_of (ps ! i)"
        "\<forall>j<i. date_of (ps ! j) < date_of (ps ! i)"
        "\<forall>j<length ps. date_of (ps ! j) \<le> date_of (ps ! i)"
        by blast
      have b1: "\<forall>j<Suc i. date_of ((p # ps) ! j) < date_of ((p # ps) ! Suc i)"
      proof (intro allI impI)
        fix j assume "j < Suc i"
        then show "date_of ((p # ps) ! j) < date_of ((p # ps) ! Suc i)"
          using i by (cases j) auto
      qed
      have b2: "\<forall>j<length (p # ps). date_of ((p # ps) ! j) \<le> date_of ((p # ps) ! Suc i)"
      proof (intro allI impI)
        fix j assume "j < length (p # ps)"
        then show "date_of ((p # ps) ! j) \<le> date_of ((p # ps) ! Suc i)"
          using i by (cases j) auto
      qed
      have "date_of cur < date_of ((p # ps) ! Suc i)"
        using True i(3) by simp
      with b1 b2 i r step show ?thesis
        by (intro exI[of _ r]) (auto intro!: exI[of _ "Suc i"])
    qed
  next
    case False
    with Cons.prems have step: "latest_loop cur (p # ps) = latest_loop cur ps"
      by (simp add: py_gt_dated)
    from Cons.prems have "created_date cur \<noteq> None" "\<forall>q\<in>set ps. created_date q \<noteq> None"
      by simp_all
    from Cons.IH[OF this] obtain r where r: "latest_loop cur ps = Inr r"
      and alt: "(r = cur \<and> (\<forall>q\<in>set ps. date_of q \<le> date_of cur)) \<or>
        (\<exists>i<length ps. r = ps ! i \<and> date_of cur < date_of (ps ! i) \<and>
          (\<forall>j<i. date_of (ps ! j) < date_of (ps ! i)) \<and>
          (\<forall>j<length ps. date_of (ps ! j) \<le> date_of (ps ! i)))"
      by blast
    from alt show ?thesis
    proof
      assume "r = cur \<and> (\<forall>q\<in>set ps. date_of q \<le> date_of cur)"
      with False r step show ?thesis by auto
    next
      assume "\<exists>i<length ps. r = ps ! i \<and> date_of cur < date_of (ps ! i) \<and>
          (\<forall>j<i. date_of (ps ! j) < date_of (ps ! i)) \<and>
          (\<forall>j<length ps. date_of (ps ! j) \<le> date_of (ps ! i))"
      then obtain i where i: "i < length ps" "r = ps ! i" "date_of cur < date_of (ps ! i)"
        "\<forall>j<i. date_of (ps ! j) < date_of (ps ! i)"
        "\<forall>j<length ps. date_of (ps ! j) \<le> date_of (ps ! i)"
        by blast
      from False i(3) have pl: "date_of p < date_of (ps ! i)" by auto
      have b1: "\<forall>j<Suc i. date_of ((p # ps) ! j) < date_of ((p # ps) ! Suc i)"
      proof (intro allI impI)
        fix j assume "j < Suc i"
        then show "date_of ((p # ps) ! j) < date_of ((p # ps) ! Suc i)"
          using i pl by (cases j) auto
      qed
      have b2: "\<forall>j<length (p # ps). date_of ((p # ps) ! j) \<le> date_of ((p # ps) ! Suc i)"
      proof (intro allI impI)
        fix j assume "j < length (p # ps)"
        then show "date_of ((p # ps) ! j) \<le> date_of ((p # ps) ! Suc i)"
          using i pl by (cases j) auto
      qed
      have "date_of cur < date_of ((p # ps) ! Suc i)"
        using i(3) by simp
      with b1 b2 i r step show ?thesis
        by (intro exI[of _ r]) (auto intro!: exI[of _ "Suc i"])
    qed
  qed
qed

subsection \<open>A store with two profiles of the same date\<close>

lemma uuid_str_1_less_2: "uuid_str 1 < uuid_str 2"
  by code_simp

lemma uuid_str_1_le_2: "uuid_str 1 \<le> uuid_str 2" "\<not> uuid_str 2 \<le> uuid_str 1"
  using uuid_str_1_less_2 by auto

lemma list_profiles_two:
  "list_profiles now
     [([BASE_GROUP_NAME, PROFILE_GROUP_NAME, uuid_str 2, ''created_date''],
        Some (strftime \<lparr>year = 2024, month = 2, day = 29, hour = 23, minute = 59,
          second = 59, microsecond = 999999\<rparr>)),
      ([BASE_GROUP_NAME, PROFILE_GROUP_NAME, uuid_str 1, ''created_date''],
        Some (strftime \<lparr>year = 2024, month = 2, day = 29, hour = 23, minute = 59,
          second = 59, microsecond = 999999\<rparr>))] =
   Inr [\<lparr>profile_id = 1, name = None, path = None, templates = [], symbology = [],
          created_date = Some \<lparr>year = 2024, month = 2, day = 29, hour = 23, minute = 59,
            second = 59, microsecond = 999999\<rparr>\<rparr>,
        \<lparr>profile_id = 2, name = None, path = None, templates = [], symbology = [],
          created_date = Some \<lparr>year = 2024, month = 2, day = 29, hour = 23, minute = 59,
            second = 59, microsecond = 999999\<rparr>\<rparr>]"
proof -
  have v: "valid_datetime \<lparr>year = 2024, month = 2, day = 29, hour = 23, minute = 59,
      second = 59, microsecond = 999999\<rparr>"
    by (simp add: valid_datetime_def days_in_month_def is_leap_def)
  have n: "uuid_str 1 \<noteq> uuid_str 2" "uuid_str 2 \<noteq> uuid_str 1"
    by (simp_all add: uuid_str_eq_iff)
  show ?thesis
    by (simp add: list_profiles_def childGroups_def key_simps n uuid_str_1_le_2
        from_qgs_settings_decode[OF UUID_uuid_str] read_created_date_def qvalue_def
        strptime_strftime[OF v] get_templates_def get_symbology_def
        TEMPLATE_GROUP_NAME_def SYMBOLOGY_GROUP_NAME_def)
qed

section \<open>The claims\<close>

text \<open>
  C1 (as amended). A call of \<open>save_profile_settings\<close>, \<open>set_current_profile\<close> or
  \<open>clear_current_profile\<close> that completes emits the change signal exactly once, and so
  does \<open>delete_profile\<close> of a profile that is not the active one. \<open>delete_profile\<close>
  of the active profile and \<open>delete_all_profiles\<close> emit it twice: once in the nested
  \<open>clear_current_profile\<close> and once themselves. A call that raises emits nothing.
\<close>

theorem notifications_per_operation:
  "(\<forall>m'. save_profile_settings m p = (Inr (), m') \<longrightarrow> emitted m' = emitted m + 1) \<and>
   (\<forall>m'. set_current_profile now m u = (Inr (), m') \<longrightarrow> emitted m' = emitted m + 1) \<and>
   emitted (clear_current_profile m) = emitted m + 1 \<and>
   (\<forall>m'. delete_profile now m u = (Inr (), m') \<longrightarrow>
      emitted m' = emitted m +
        (if is_current_profile now (settings m) u = Inr True then 2 else 1)) \<and>
   emitted (delete_all_profiles m) = emitted m + 2 \<and>
   (\<forall>e m'. save_profile_settings m p = (Inl e, m') \<longrightarrow> emitted m' = emitted m) \<and>
   (\<forall>e m'. set_current_profile now m u = (Inl e, m') \<longrightarrow> emitted m' = emitted m) \<and>
   (\<forall>e m'. delete_profile now m u = (Inl e, m') \<longrightarrow> emitted m' = emitted m)"
  using emitted_save_profile_settings[of m p] emitted_set_current_profile[of now m u]
    emitted_clear_current_profile[of m] emitted_delete_profile[of now m u]
    emitted_delete_all_profiles[of m] failed_save_profile_settings[of m p]
    failed_set_current_profile[of now m u] failed_delete_profile[of now m u]
  by auto

theorem delete_all_profiles_emits_twice:
  "emitted (delete_all_profiles \<lparr>settings = [], emitted = 0\<rparr>) = 2"
  by (simp add: delete_all_profiles_def Let_def emit_def clear_current_profile_def
      childGroups_def)

theorem notifications_per_operation_witness:
  "save_profile_settings \<lparr>settings = [], emitted = 0\<rparr>
     \<lparr>profile_id = 1, name = Some ''A'', path = Some ''p'', templates = [], symbology = [],
      created_date = Some \<lparr>year = 2024, month = 2, day = 29, hour = 0, minute = 0,
        second = 0, microsecond = 0\<rparr>\<rparr> =
   (Inr (), snd (save_profile_settings \<lparr>settings = [], emitted = 0\<rparr>
     \<lparr>profile_id = 1, name = Some ''A'', path = Some ''p'', templates = [], symbology = [],
      created_date = Some \<lparr>year = 2024, month = 2, day = 29, hour = 0, minute = 0,
        second = 0, microsecond = 0\<rparr>\<rparr>)) \<and>
   emitted (snd (save_profile_settings \<lparr>settings = [], emitted = 0\<rparr>
     \<lparr>profile_id = 1, name = Some ''A'', path = Some ''p'', templates = [], symbology = [],
      created_date = Some \<lparr>year = 2024, month = 2, day = 29, hour = 0, minute = 0,
        second = 0, microsecond = 0\<rparr>\<rparr>)) = 1"
proof -
  let ?m = "\<lparr>settings = [], emitted = 0\<rparr>"
  let ?p = "\<lparr>profile_id = 1, name = Some ''A'', path = Some ''p'', templates = [],
      symbology = [], created_date = Some \<lparr>year = 2024, month = 2, day = 29, hour = 0,
        minute = 0, second = 0, microsecond = 0\<rparr>\<rparr>"
  have a: "save_profile_settings ?m ?p = (Inr (), snd (save_profile_settings ?m ?p))"
    by (simp add: save_profile_settings_def Let_def)
  from notifications_per_operation[of ?m ?p
      "\<lparr>year = 2024, month = 2, day = 29, hour = 0, minute = 0, second = 0, microsecond = 0\<rparr>" 1] a
  have "emitted (snd (save_profile_settings ?m ?p)) = emitted ?m + 1" by blast
  with a show ?thesis by simp
qed

text \<open>
  C2. A stored \<open>created_date\<close> that does not parse makes the decode raise: \<open>strptime\<close>
  raises \<open>ValueError\<close>, and the handler of \<open>from_qgs_settings\<close> catches
  \<open>AttributeError\<close> only. Here the stored date is the string \<open>yesterday\<close>.
\<close>

theorem malformed_date_raises:
  "get_profile_settings
     \<lparr>year = 2024, month = 2, day = 29, hour = 0, minute = 0, second = 0, microsecond = 0\<rparr>
     [([BASE_GROUP_NAME, PROFILE_GROUP_NAME, uuid_str 1, ''created_date''], Some ''yesterday'')]
     1 = Inl TimeDataMismatch \<and>
   list_profiles
     \<lparr>year = 2024, month = 2, day = 29, hour = 0, minute = 0, second = 0, microsecond = 0\<rparr>
     [([BASE_GROUP_NAME, PROFILE_GROUP_NAME, uuid_str 1, ''created_date''], Some ''yesterday'')]
     = Inl TimeDataMismatch"
proof -
  have "strptime ''yesterday'' = Inl TimeDataMismatch"
    by (simp add: strptime_def split_fields_def take_until_def)
  then show ?thesis
    by (simp add: get_profile_settings_decode list_profiles_def childGroups_def
        from_qgs_settings_decode[OF UUID_uuid_str] read_created_date_def qvalue_def key_simps)
qed

text \<open>
  C3 (as amended). When the stored \<open>created_date\<close> is absent (or \<open>None\<close>), decoding
  does not raise and gives a profile whose \<open>created_date\<close> is \<open>None\<close>: the current
  time is not substituted.
\<close>

theorem from_qgs_settings_absent_date:
  assumes "UUID identifier = Inr u"
    and "qvalue grp ''created_date'' st = None"
  shows "ProfileSettings_from_qgs_settings now identifier grp st =
      Inr \<lparr>profile_id = u, name = qvalue grp ''name'' st, path = qvalue grp ''path'' st,
           templates = get_templates st u, symbology = get_symbology st u,
           created_date = None\<rparr> \<and>
    (identifier = uuid_str u \<and> grp = get_profile_settings_base (uuid_str u) \<longrightarrow>
       (\<exists>p. get_profile_settings now st u = Inr p \<and> created_date p = None))"
proof (intro conjI impI)
  show "ProfileSettings_from_qgs_settings now identifier grp st =
      Inr \<lparr>profile_id = u, name = qvalue grp ''name'' st, path = qvalue grp ''path'' st,
           templates = get_templates st u, symbology = get_symbology st u,
           created_date = None\<rparr>"
    using assms by (simp add: from_qgs_settings_decode read_created_date_def)
next
  assume "identifier = uuid_str u \<and> grp = get_profile_settings_base (uuid_str u)"
  with assms(2) show "\<exists>p. get_profile_settings now st u = Inr p \<and> created_date p = None"
    by (simp add: get_profile_settings_decode read_created_date_def)
qed

theorem from_qgs_settings_absent_date_witness:
  "get_profile_settings
     \<lparr>year = 2024, month = 2, day = 29, hour = 0, minute = 0, second = 0, microsecond = 0\<rparr>
     [([BASE_GROUP_NAME, PROFILE_GROUP_NAME, uuid_str 1, ''name''], Some ''A'')] 1 =
   Inr \<lparr>profile_id = 1, name = Some ''A'', path = None, templates = [], symbology = [],
        created_date = None\<rparr>"
proof -
  let ?st = "[([BASE_GROUP_NAME, PROFILE_GROUP_NAME, uuid_str 1, ''name''], Some ''A'')]"
  let ?g = "get_profile_settings_base (uuid_str 1)"
  have a: "qvalue ?g ''created_date'' ?st = None"
    by (simp add: qvalue_def key_simps)
  have "qvalue ?g ''name'' ?st = Some ''A''" "qvalue ?g ''path'' ?st = None"
    "get_templates ?st 1 = []" "get_symbology ?st 1 = []"
    by (simp_all add: qvalue_def key_simps get_templates_def get_symbology_def childGroups_def
        TEMPLATE_GROUP_NAME_def SYMBOLOGY_GROUP_NAME_def)
  with from_qgs_settings_absent_date[OF UUID_uuid_str a]
  show ?thesis by (simp add: get_profile_settings_def)
qed

text \<open>
  The claim as stated fails: with the clock at 29 February 2024, a stored profile that has
  a name and no \<open>created_date\<close> decodes to the date \<open>None\<close>, not to that time.
\<close>

theorem absent_date_is_not_now:
  "map_sum id created_date (get_profile_settings
     \<lparr>year = 2024, month = 2, day = 29, hour = 0, minute = 0, second = 0, microsecond = 0\<rparr>
     [([BASE_GROUP_NAME, PROFILE_GROUP_NAME, uuid_str 1, ''name''], Some ''A'')] 1) \<noteq>
   Inr (Some \<lparr>year = 2024, month = 2, day = 29, hour = 0, minute = 0, second = 0,
     microsecond = 0\<rparr>)"
  by (simp add: get_profile_settings_decode read_created_date_def qvalue_def key_simps)

text \<open>
  C6. \<open>set_current_profile\<close> completes exactly when \<open>list_profiles\<close> returns and the
  identifier is the id of one of the profiles listed; it then leaves the string of the
  identifier in the active pointer. When the identifier is not among the ids listed, it
  raises the \<open>ValueError\<close> for an invalid profile identifier.
\<close>

theorem set_current_profile_iff_listed:
  "((\<exists>m'. set_current_profile now m u = (Inr (), m')) \<longleftrightarrow>
      (\<exists>ps. list_profiles now (settings m) = Inr ps \<and> u \<in> set (map profile_id ps))) \<and>
   (\<forall>m'. set_current_profile now m u = (Inr (), m') \<longrightarrow>
      selected_profile (settings m') = Some (uuid_str u)) \<and>
   (\<forall>ps. list_profiles now (settings m) = Inr ps \<and> u \<notin> set (map profile_id ps) \<longrightarrow>
      fst (set_current_profile now m u) = Inl InvalidProfileIdentifier)"
  by (auto simp: set_current_profile_def selected_profile_def qvalue_setValue_same emit_def
      split: sum.splits if_splits)

theorem set_current_profile_iff_listed_witness:
  "fst (set_current_profile
     \<lparr>year = 2024, month = 2, day = 29, hour = 0, minute = 0, second = 0, microsecond = 0\<rparr>
     \<lparr>settings = [([BASE_GROUP_NAME, PROFILE_GROUP_NAME, uuid_str 1, ''name''], Some ''A'')],
      emitted = 0\<rparr> 1) = Inr () \<and>
   selected_profile (settings (snd (set_current_profile
     \<lparr>year = 2024, month = 2, day = 29, hour = 0, minute = 0, second = 0, microsecond = 0\<rparr>
     \<lparr>settings = [([BASE_GROUP_NAME, PROFILE_GROUP_NAME, uuid_str 1, ''name''], Some ''A'')],
      emitted = 0\<rparr> 1))) = Some (uuid_str 1) \<and>
   fst (set_current_profile
     \<lparr>year = 2024, month = 2, day = 29, hour = 0, minute = 0, second = 0, microsecond = 0\<rparr>
     \<lparr>settings = [([BASE_GROUP_NAME, PROFILE_GROUP_NAME, uuid_str 1, ''name''], Some ''A'')],
      emitted = 0\<rparr> 2) = Inl InvalidProfileIdentifier"
proof -
  let ?now = "\<lparr>year = 2024, month = 2, day = 29, hour = 0, minute = 0, second = 0,
    microsecond = 0\<rparr>"
  let ?m = "\<lparr>settings = [([BASE_GROUP_NAME, PROFILE_GROUP_NAME, uuid_str 1, ''name''],
    Some ''A'')], emitted = 0\<rparr>"
  let ?p = "\<lparr>profile_id = 1, name = Some ''A'', path = None, templates = [], symbology = [],
    created_date = None\<rparr>"
  have l: "list_profiles ?now (settings ?m) = Inr [?p]"
    by (simp add: list_profiles_one)
  have in1: "(1::uuid) \<in> set (map profile_id [?p])" by simp
  have out2: "(2::uuid) \<notin> set (map profile_id [?p])" by simp
  from set_current_profile_iff_listed[of ?now ?m 1] l in1
  obtain m' where s: "set_current_profile ?now ?m 1 = (Inr (), m')" by blast
  with set_current_profile_iff_listed[of ?now ?m 1]
  have "selected_profile (settings m') = Some (uuid_str 1)" by blast
  moreover from set_current_profile_iff_listed[of ?now ?m 2] l out2
  have "fst (set_current_profile ?now ?m 2) = Inl InvalidProfileIdentifier" by blast
  ultimately show ?thesis using s by simp
qed

text \<open>
  C7. Let \<open>list_profiles\<close> return the profiles \<open>ps\<close>. When there are none,
  \<open>get_latest_profile\<close> returns \<open>None\<close>. When there is one at least and every
  profile has a date, it returns a profile of the list whose date is the greatest, and
  among those the one that comes first in the list: every profile before it is strictly
  older.
\<close>

theorem get_latest_profile_first_maximum:
  assumes "list_profiles now st = Inr ps"
  shows "(ps = [] \<longrightarrow> get_latest_profile now st = Inr None) \<and>
    (ps \<noteq> [] \<and> (\<forall>p\<in>set ps. created_date p \<noteq> None) \<longrightarrow>
       (\<exists>i<length ps. get_latest_profile now st = Inr (Some (ps ! i)) \<and>
          (\<forall>j<length ps. date_of (ps ! j) \<le> date_of (ps ! i)) \<and>
          (\<forall>j<i. date_of (ps ! j) < date_of (ps ! i))))"
proof (intro conjI impI)
  assume "ps = []"
  with assms show "get_latest_profile now st = Inr None"
    by (simp add: get_latest_profile_def)
next
  assume a: "ps \<noteq> [] \<and> (\<forall>p\<in>set ps. created_date p \<noteq> None)"
  then have ne: "0 < length ps" and d0: "created_date (ps ! 0) \<noteq> None"
    by (auto simp: nth_mem)
  from a have dated: "\<forall>p\<in>set ps. created_date p \<noteq> None" by simp
  from latest_loop_result[OF d0 dated] obtain r where r: "latest_loop (ps ! 0) ps = Inr r"
    and alt: "(r = ps ! 0 \<and> (\<forall>q\<in>set ps. date_of q \<le> date_of (ps ! 0))) \<or>
      (\<exists>i<length ps. r = ps ! i \<and> date_of (ps ! 0) < date_of (ps ! i) \<and>
        (\<forall>j<i. date_of (ps ! j) < date_of (ps ! i)) \<and>
        (\<forall>j<length ps. date_of (ps ! j) \<le> date_of (ps ! i)))"
    by blast
  from assms ne r have g: "get_latest_profile now st = Inr (Some r)"
    by (simp add: get_latest_profile_def)
  from alt show "\<exists>i<length ps. get_latest_profile now st = Inr (Some (ps ! i)) \<and>
      (\<forall>j<length ps. date_of (ps ! j) \<le> date_of (ps ! i)) \<and>
      (\<forall>j<i. date_of (ps ! j) < date_of (ps ! i))"
  proof
    assume "r = ps ! 0 \<and> (\<forall>q\<in>set ps. date_of q \<le> date_of (ps ! 0))"
    with g ne show ?thesis
      by (intro exI[of _ 0]) (auto simp: nth_mem)
  next
    assume "\<exists>i<length ps. r = ps ! i \<and> date_of (ps ! 0) < date_of (ps ! i) \<and>
        (\<forall>j<i. date_of (ps ! j) < date_of (ps ! i)) \<and>
        (\<forall>j<length ps. date_of (ps ! j) \<le> date_of (ps ! i))"
    with g show ?thesis by blast
  qed
qed

theorem get_latest_profile_first_maximum_witness:
  "get_latest_profile
     \<lparr>year = 2024, month = 3, day = 1, hour = 0, minute = 0, second = 0, microsecond = 0\<rparr>
     [([BASE_GROUP_NAME, PROFILE_GROUP_NAME, uuid_str 2, ''created_date''],
        Some (strftime \<lparr>year = 2024, month = 2, day = 29, hour = 23, minute = 59,
          second = 59, microsecond = 999999\<rparr>)),
      ([BASE_GROUP_NAME, PROFILE_GROUP_NAME, uuid_str 1, ''created_date''],
        Some (strftime \<lparr>year = 2024, month = 2, day = 29, hour = 23, minute = 59,
          second = 59, microsecond = 999999\<rparr>))] =
   Inr (Some \<lparr>profile_id = 1, name = None, path = None, templates = [], symbology = [],
     created_date = Some \<lparr>year = 2024, month = 2, day = 29, hour = 23, minute = 59,
       second = 59, microsecond = 999999\<rparr>\<rparr>)"
proof -
  let ?d = "\<lparr>year = 2024, month = 2, day = 29, hour = 23, minute = 59, second = 59,
    microsecond = 999999\<rparr>"
  let ?p1 = "\<lparr>profile_id = 1, name = None, path = None, templates = [], symbology = [],
    created_date = Some ?d\<rparr>"
  let ?p2 = "\<lparr>profile_id = 2, name = None, path = None, templates = [], symbology = [],
    created_date = Some ?d\<rparr>"
  let ?ps = "[?p1, ?p2]"
  have ok: "?ps \<noteq> [] \<and> (\<forall>p\<in>set ?ps. created_date p \<noteq> None)" by simp
  from get_latest_profile_first_maximum[OF list_profiles_two] ok
  obtain i where i: "i < length ?ps"
    "get_latest_profile \<lparr>year = 2024, month = 3, day = 1, hour = 0, minute = 0, second = 0,
       microsecond = 0\<rparr>
     [([BASE_GROUP_NAME, PROFILE_GROUP_NAME, uuid_str 2, ''created_date''], Some (strftime ?d)),
      ([BASE_GROUP_NAME, PROFILE_GROUP_NAME, uuid_str 1, ''created_date''], Some (strftime ?d))]
     = Inr (Some (?ps ! i))"
    "\<forall>j<i. date_of (?ps ! j) < date_of (?ps ! i)"
    by blast
  have "i = 0"
  proof (rule ccontr)
    assume "i \<noteq> 0"
    with i(1) have "i = 1" by simp
    with i(3) have "date_of (?ps ! 0) < date_of (?ps ! 1)" by simp
    then show False by (simp add: date_of_def)
  qed
  with i(2) show ?thesis by simp
qed

text \<open>
  C8. For a profile id with no key at or below its base path, \<open>get_profile_settings\<close>
  does not raise: it returns the profile with that id whose name, path and date are
  \<open>None\<close> and whose templates and symbology are empty.
\<close>

theorem get_profile_settings_never_written:
  assumes "never_written st u"
  shows "get_profile_settings now st u =
    Inr \<lparr>profile_id = u, name = None, path = None, templates = [], symbology = [],
         created_date = None\<rparr>"
proof -
  let ?b = "[BASE_GROUP_NAME, PROFILE_GROUP_NAME, uuid_str u]"
  from assms have nk: "\<forall>k\<in>fst ` set st. \<not> prefix ?b k"
    by (simp add: never_written_keys)
  have absent: "qvalue (get_profile_settings_base (uuid_str u)) f st = None" for f
  proof (rule qvalue_absent)
    have "prefix ?b (full_key (get_profile_settings_base (uuid_str u)) f)"
      by (simp add: key_simps)
    with nk show "full_key (get_profile_settings_base (uuid_str u)) f \<notin> fst ` set st"
      by blast
  qed
  have t: "childGroups (templates_root (uuid_str u)) st = []"
  proof (rule childGroups_empty, rule ballI)
    fix k assume "k \<in> fst ` set st"
    with nk have n: "\<not> prefix ?b k" by blast
    have "prefix (?b @ [TEMPLATE_GROUP_NAME]) k \<Longrightarrow> prefix ?b k"
      by (rule append_prefixD)
    with n show "\<not> prefix (split_key (templates_root (uuid_str u))) k"
      by (auto simp: key_simps)
  qed
  have s: "childGroups (symbology_root (uuid_str u)) st = []"
  proof (rule childGroups_empty, rule ballI)
    fix k assume "k \<in> fst ` set st"
    with nk have n: "\<not> prefix ?b k" by blast
    have "prefix (?b @ [SYMBOLOGY_GROUP_NAME]) k \<Longrightarrow> prefix ?b k"
      by (rule append_prefixD)
    with n show "\<not> prefix (split_key (symbology_root (uuid_str u))) k"
      by (auto simp: key_simps)
  qed
  show ?thesis
    by (simp add: get_profile_settings_decode read_created_date_def absent get_templates_def
        get_symbology_def t s)
qed

theorem get_profile_settings_never_written_witness:
  "get_profile_settings
     \<lparr>year = 2024, month = 2, day = 29, hour = 0, minute = 0, second = 0, microsecond = 0\<rparr>
     [([BASE_GROUP_NAME, PROFILE_GROUP_NAME, uuid_str 1, ''name''], Some ''A'')] 2 =
   Inr \<lparr>profile_id = 2, name = None, path = None, templates = [], symbology = [],
        created_date = None\<rparr>"
proof -
  have "never_written
      [([BASE_GROUP_NAME, PROFILE_GROUP_NAME, uuid_str 1, ''name''], Some ''A'')] 2"
    by (simp add: never_written_keys uuid_str_eq_iff)
  then show ?thesis by (rule get_profile_settings_never_written)
qed

text \<open>
  C9. When the identifier is not the id of any profile that \<open>list_profiles\<close> returns,
  \<open>set_current_profile\<close> raises before it writes: the manager is left as it was, with
  the same settings, the same active pointer and no signal emitted.
\<close>

theorem set_current_profile_unlisted_unchanged:
  assumes "list_profiles now (settings m) = Inr ps"
    and "u \<notin> set (map profile_id ps)"
  shows "set_current_profile now m u = (Inl InvalidProfileIdentifier, m) \<and>
    settings (snd (set_current_profile now m u)) = settings m \<and>
    selected_profile (settings (snd (set_current_profile now m u))) =
      selected_profile (settings m) \<and>
    emitted (snd (set_current_profile now m u)) = emitted m"
  using assms by (simp add: set_current_profile_def)

theorem set_current_profile_unlisted_unchanged_witness:
  "set_current_profile
     \<lparr>year = 2024, month = 2, day = 29, hour = 0, minute = 0, second = 0, microsecond = 0\<rparr>
     \<lparr>settings = [([BASE_GROUP_NAME, PROFILE_GROUP_NAME, uuid_str 1, ''name''], Some ''A'')],
      emitted = 0\<rparr> 2 =
   (Inl InvalidProfileIdentifier,
     \<lparr>settings = [([BASE_GROUP_NAME, PROFILE_GROUP_NAME, uuid_str 1, ''name''], Some ''A'')],
      emitted = 0\<rparr>)"
proof -
  let ?now = "\<lparr>year = 2024, month = 2, day = 29, hour = 0, minute = 0, second = 0,
    microsecond = 0\<rparr>"
  let ?m = "\<lparr>settings = [([BASE_GROUP_NAME, PROFILE_GROUP_NAME, uuid_str 1, ''name''],
    Some ''A'')], emitted = 0\<rparr>"
  let ?p = "\<lparr>profile_id = 1, name = Some ''A'', path = None, templates = [], symbology = [],
    created_date = None\<rparr>"
  have l: "list_profiles ?now (settings ?m) = Inr [?p]"
    by (simp add: list_profiles_one)
  have out2: "(2::uuid) \<notin> set (map profile_id [?p])" by simp
  from set_current_profile_unlisted_unchanged[OF l out2] show ?thesis by simp
qed

text \<open>
  C10. \<open>save_template\<close> and \<open>save_symbology\<close> write two keys, \<open>name\<close> and
  \<open>id\<close>, in the group of the record, which lies under the templates (or symbology) group
  of the profile. The value of every other key is unchanged; in particular the active
  pointer, the name, path and date of the profile, and every key under another profile are
  unchanged. No signal is emitted.
\<close>

theorem save_child_frame:
  "((\<forall>k. k \<noteq> template_path p t @ [''name''] \<and> k \<noteq> template_path p t @ [''id''] \<longrightarrow>
      map_of (settings (save_template m p t)) k = map_of (settings m) k) \<and>
   prefix [BASE_GROUP_NAME, PROFILE_GROUP_NAME, uuid_str (profile_id p), TEMPLATE_GROUP_NAME]
     (template_path p t) \<and>
   selected_profile (settings (save_template m p t)) = selected_profile (settings m) \<and>
   (\<forall>f\<in>{''name'', ''path'', ''created_date''}.
      qvalue (get_profile_settings_base (uuid_str (profile_id p))) f
        (settings (save_template m p t)) =
      qvalue (get_profile_settings_base (uuid_str (profile_id p))) f (settings m)) \<and>
   (\<forall>u k. u \<noteq> profile_id p \<and> prefix [BASE_GROUP_NAME, PROFILE_GROUP_NAME, uuid_str u] k \<longrightarrow>
      map_of (settings (save_template m p t)) k = map_of (settings m) k) \<and>
   emitted (save_template m p t) = emitted m) \<and>
   ((\<forall>k. k \<noteq> symbology_path p s @ [''name''] \<and> k \<noteq> symbology_path p s @ [''id''] \<longrightarrow>
      map_of (settings (save_symbology m p s)) k = map_of (settings m) k) \<and>
   prefix [BASE_GROUP_NAME, PROFILE_GROUP_NAME, uuid_str (profile_id p), SYMBOLOGY_GROUP_NAME]
     (symbology_path p s) \<and>
   selected_profile (settings (save_symbology m p s)) = selected_profile (settings m) \<and>
   (\<forall>f\<in>{''name'', ''path'', ''created_date''}.
      qvalue (get_profile_settings_base (uuid_str (profile_id p))) f
        (settings (save_symbology m p s)) =
      qvalue (get_profile_settings_base (uuid_str (profile_id p))) f (settings m)) \<and>
   (\<forall>u k. u \<noteq> profile_id p \<and> prefix [BASE_GROUP_NAME, PROFILE_GROUP_NAME, uuid_str u] k \<longrightarrow>
      map_of (settings (save_symbology m p s)) k = map_of (settings m) k) \<and>
   emitted (save_symbology m p s) = emitted m)"
  using save_template_frame[of p t m] save_symbology_frame[of p s m] by blast

theorem save_child_frame_witness:
  "map_of (settings (save_template
     \<lparr>settings = [([BASE_GROUP_NAME, PROFILE_GROUP_NAME, uuid_str 1, ''name''], Some ''A'')],
      emitted = 0\<rparr>
     \<lparr>profile_id = 1, name = Some ''A'', path = None, templates = [], symbology = [],
      created_date = None\<rparr>
     \<lparr>template_name = Some ''Basic'', template_id = Some ''t1''\<rparr>))
     [BASE_GROUP_NAME, PROFILE_GROUP_NAME, uuid_str 1, ''name''] = Some (Some ''A'') \<and>
   map_of (settings (save_symbology
     \<lparr>settings = [([BASE_GROUP_NAME, PROFILE_GROUP_NAME, uuid_str 1, ''name''], Some ''A'')],
      emitted = 0\<rparr>
     \<lparr>profile_id = 2, name = Some ''B'', path = None, templates = [], symbology = [],
      created_date = None\<rparr>
     \<lparr>symbology_name = Some ''Lines'', symbology_id = Some ''s1''\<rparr>))
     [BASE_GROUP_NAME, PROFILE_GROUP_NAME, uuid_str 1, ''name''] = Some (Some ''A'')"
proof -
  let ?m = "\<lparr>settings = [([BASE_GROUP_NAME, PROFILE_GROUP_NAME, uuid_str 1, ''name''],
    Some ''A'')], emitted = 0\<rparr>"
  let ?p = "\<lparr>profile_id = 1, name = Some ''A'', path = None, templates = [], symbology = [],
    created_date = None\<rparr>"
  let ?q = "\<lparr>profile_id = 2, name = Some ''B'', path = None, templates = [], symbology = [],
    created_date = None\<rparr>"
  let ?t = "\<lparr>template_name = Some ''Basic'', template_id = Some ''t1''\<rparr>"
  let ?s = "\<lparr>symbology_name = Some ''Lines'', symbology_id = Some ''s1''\<rparr>"
  let ?k = "[BASE_GROUP_NAME, PROFILE_GROUP_NAME, uuid_str 1, ''name'']"
  have a: "?k \<noteq> template_path ?p ?t @ [''name''] \<and> ?k \<noteq> template_path ?p ?t @ [''id'']"
    by (simp add: template_path_eq)
  have b: "(1::uuid) \<noteq> profile_id ?q \<and>
      prefix [BASE_GROUP_NAME, PROFILE_GROUP_NAME, uuid_str 1] ?k"
    by simp
  from save_child_frame[of ?p ?t ?m ?s] a
  have "map_of (settings (save_template ?m ?p ?t)) ?k = map_of (settings ?m) ?k" by blast
  moreover from save_child_frame[of ?q ?t ?m ?s] b
  have "map_of (settings (save_symbology ?m ?q ?s)) ?k = map_of (settings ?m) ?k" by blast
  ultimately show ?thesis by simp
qed

end
